theory Spec2Isabelle
  imports Main "HOL-Library.Char_ord" "HOL-Library.List_Lexorder" "HOL-Library.Product_Lexorder"
    "HOL-Library.AList"
begin

section \<open>Python values\<close>

text \<open>
  The scripts read JSON from the card API and from two local files and write JSON back.
  A value is what \<^verbatim>\<open>json.load\<close> returns: \<^verbatim>\<open>None\<close>, a bool, an int, a str, a list or a
  dict with string keys (kept as an association list, in insertion order). JSON numbers
  are integers here; floats are not modelled. A string is the UTF-8 bytes of the Python
  str, whose order is the order of the code points. The case mappings, the digit test and
  the regular expressions are Python's on ASCII characters and leave the bytes from 128 on
  alone, as Python leaves the Japanese tokens of the API alone; text in other scripts that
  have cases or digits of their own is outside the model.
\<close>

datatype json =
    JNull
  | JBool bool
  | JNum int
  | JStr string
  | JList "json list"
  | JObj "(string \<times> json) list"

datatype py_error =
    KeyError | TypeError | AttributeError | ValueError | IndexError | FileNotFoundError

type_synonym pydict = "(string \<times> json) list"

text \<open>Truth value of a Python object, as \<^verbatim>\<open>if x\<close> and \<^verbatim>\<open>not x\<close> test it.\<close>

fun truthy :: "json \<Rightarrow> bool" where
  "truthy JNull = False"
| "truthy (JBool b) = b"
| "truthy (JNum n) = (n \<noteq> 0)"
| "truthy (JStr s) = (s \<noteq> [])"
| "truthy (JList xs) = (xs \<noteq> [])"
| "truthy (JObj kvs) = (kvs \<noteq> [])"

text \<open>\<^verbatim>\<open>d.get(key, default)\<close>; \<^verbatim>\<open>d.get(key)\<close> is \<^verbatim>\<open>dict_get d key JNull\<close>.\<close>

definition dict_get :: "pydict \<Rightarrow> string \<Rightarrow> json \<Rightarrow> json" where
  "dict_get d k dflt = (case map_of d k of Some v \<Rightarrow> v | None \<Rightarrow> dflt)"

subsection \<open>Characters and strings\<close>

definition is_digit :: "char \<Rightarrow> bool" where
  "is_digit c = (CHR ''0'' \<le> c \<and> c \<le> CHR ''9'')"

definition is_upper :: "char \<Rightarrow> bool" where
  "is_upper c = (CHR ''A'' \<le> c \<and> c \<le> CHR ''Z'')"

definition is_lower :: "char \<Rightarrow> bool" where
  "is_lower c = (CHR ''a'' \<le> c \<and> c \<le> CHR ''z'')"

definition is_alpha :: "char \<Rightarrow> bool" where
  "is_alpha c = (is_upper c \<or> is_lower c)"

definition lower_char :: "char \<Rightarrow> char" where
  "lower_char c = (if is_upper c then char_of (of_char c + (32::nat)) else c)"

definition upper_char :: "char \<Rightarrow> char" where
  "upper_char c = (if is_lower c then char_of (of_char c - (32::nat)) else c)"

text \<open>\<^verbatim>\<open>s.lower()\<close>, \<^verbatim>\<open>s.upper()\<close> and \<^verbatim>\<open>s.isdigit()\<close> (false on the empty string).\<close>

definition lower :: "string \<Rightarrow> string" where
  "lower s = map lower_char s"

definition upper :: "string \<Rightarrow> string" where
  "upper s = map upper_char s"

definition isdigit :: "string \<Rightarrow> bool" where
  "isdigit s = (s \<noteq> [] \<and> list_all is_digit s)"

definition digit_val :: "char \<Rightarrow> nat" where
  "digit_val c = of_char c - 48"

definition digit_char :: "nat \<Rightarrow> char" where
  "digit_char d = char_of (48 + d)"

text \<open>The value of a string of decimal digits, most significant digit first.\<close>

definition nat_of_digits :: "string \<Rightarrow> nat" where
  "nat_of_digits s = foldl (\<lambda>a c. 10 * a + digit_val c) 0 s"

text \<open>The decimal digits of a natural number, as \<^verbatim>\<open>str(n)\<close> writes them.\<close>

fun digits10 :: "nat \<Rightarrow> string" where
  "digits10 n = (if n < 10 then [digit_char n] else digits10 (n div 10) @ [digit_char (n mod 10)])"

declare digits10.simps [simp del]

definition str_of_int :: "int \<Rightarrow> string" where
  "str_of_int i = (if i < 0 then CHR ''-'' # digits10 (nat (- i)) else digits10 (nat i))"

text \<open>The format \<^verbatim>\<open>f"{n:02d}"\<close> of a non-negative integer: at least two digits.\<close>

definition pad2 :: "nat \<Rightarrow> string" where
  "pad2 n = (let s = digits10 n in if length s < 2 then CHR ''0'' # s else s)"

subsection \<open>Code points\<close>

text \<open>
  A Python string is a sequence of code points; here it is its UTF-8 bytes. \<^verbatim>\<open>len(s)\<close>
  counts the bytes that start a code point and \<^verbatim>\<open>s[0]\<close> is the first code point with its
  continuation bytes.
\<close>

definition is_continuation :: "char \<Rightarrow> bool" where
  "is_continuation c = (128 \<le> (of_char c :: nat) \<and> (of_char c :: nat) < 192)"

definition str_len :: "string \<Rightarrow> nat" where
  "str_len s = length (filter (\<lambda>c. \<not> is_continuation c) s)"

definition first_code_point :: "string \<Rightarrow> string" where
  "first_code_point s = (case s of [] \<Rightarrow> [] | c # r \<Rightarrow> c # takeWhile is_continuation r)"

subsection \<open>Built-in operations\<close>

text \<open>\<^verbatim>\<open>len(x)\<close>: defined on str, list and dict.\<close>

fun py_len :: "json \<Rightarrow> py_error + nat" where
  "py_len (JStr s) = Inr (str_len s)"
| "py_len (JList xs) = Inr (length xs)"
| "py_len (JObj kvs) = Inr (length kvs)"
| "py_len _ = Inl TypeError"

text \<open>
  \<^verbatim>\<open>x[0]\<close>: the first code point of a str, the first item of a list; a dict read from JSON
  has string keys only, so the key 0 is missing.
\<close>

fun py_getitem0 :: "json \<Rightarrow> py_error + json" where
  "py_getitem0 (JStr s) = (if s = [] then Inl IndexError else Inr (JStr (first_code_point s)))"
| "py_getitem0 (JList xs) = (case xs of [] \<Rightarrow> Inl IndexError | x # _ \<Rightarrow> Inr x)"
| "py_getitem0 (JObj kvs) = Inl KeyError"
| "py_getitem0 _ = Inl TypeError"

text \<open>\<^verbatim>\<open>x[key]\<close> with a string key: only a dict can be read that way.\<close>

fun py_getitem :: "json \<Rightarrow> string \<Rightarrow> py_error + json" where
  "py_getitem (JObj kvs) k = (case map_of kvs k of None \<Rightarrow> Inl KeyError | Some v \<Rightarrow> Inr v)"
| "py_getitem _ k = Inl TypeError"

fun is_substring :: "string \<Rightarrow> string \<Rightarrow> bool" where
  "is_substring p [] = (p = [])"
| "is_substring p (c # cs) = (take (length p) (c # cs) = p \<or> is_substring p cs)"

text \<open>
  \<^verbatim>\<open>key in x\<close> with a string key: the substring test on a str, equality with an item on a
  list, key membership on a dict; other values are not iterable.
\<close>

fun py_contains :: "json \<Rightarrow> string \<Rightarrow> py_error + bool" where
  "py_contains (JStr s) k = Inr (is_substring k s)"
| "py_contains (JList xs) k = Inr (JStr k \<in> set xs)"
| "py_contains (JObj kvs) k = Inr (k \<in> fst ` set kvs)"
| "py_contains _ k = Inl TypeError"

subsection \<open>\<^verbatim>\<open>str\<close> and \<^verbatim>\<open>repr\<close>\<close>

definition hex_digit :: "nat \<Rightarrow> char" where
  "hex_digit d = (if d < 10 then char_of (48 + d) else char_of (87 + d))"

text \<open>
  One character inside the quotes of \<^verbatim>\<open>repr(s)\<close>, where \<open>q\<close> is the quote in use: the quote
  and the backslash are escaped, tab, newline and carriage return get their letter, the other
  control characters their hexadecimal code.
\<close>

definition repr_char :: "char \<Rightarrow> char \<Rightarrow> string" where
  "repr_char q c =
     (if c = q \<or> c = CHR 0x5C then [CHR 0x5C, c]
      else if c = CHR 0x09 then [CHR 0x5C, CHR ''t'']
      else if c = CHR 0x0A then [CHR 0x5C, CHR ''n'']
      else if c = CHR 0x0D then [CHR 0x5C, CHR ''r'']
      else if (of_char c :: nat) < 32 \<or> c = CHR 0x7F
        then [CHR 0x5C, CHR ''x'', hex_digit (of_char c div 16), hex_digit (of_char c mod 16)]
      else [c])"

text \<open>Double quotes are used when the string holds a single quote and no double quote.\<close>

definition repr_str :: "string \<Rightarrow> string" where
  "repr_str s =
     (let q = (if CHR 0x27 \<in> set s \<and> CHR 0x22 \<notin> set s then CHR 0x22 else CHR 0x27)
      in q # concat (map (repr_char q) s) @ [q])"

fun join :: "string \<Rightarrow> string list \<Rightarrow> string" where
  "join sep [] = []"
| "join sep [x] = x"
| "join sep (x # y # r) = x @ sep @ join sep (y # r)"

fun py_repr :: "json \<Rightarrow> string"
  and repr_items :: "json list \<Rightarrow> string list"
  and repr_pairs :: "(string \<times> json) list \<Rightarrow> string list" where
  "py_repr JNull = ''None''"
| "py_repr (JBool b) = (if b then ''True'' else ''False'')"
| "py_repr (JNum n) = str_of_int n"
| "py_repr (JStr s) = repr_str s"
| "py_repr (JList xs) = ''['' @ join '', '' (repr_items xs) @ '']''"
| "py_repr (JObj kvs) = ''{'' @ join '', '' (repr_pairs kvs) @ ''}''"
| "repr_items [] = []"
| "repr_items (x # xs) = py_repr x # repr_items xs"
| "repr_pairs [] = []"
| "repr_pairs ((k, v) # kvs) = (repr_str k @ '': '' @ py_repr v) # repr_pairs kvs"

text \<open>\<^verbatim>\<open>str(x)\<close>, also what an f-string field without a format writes.\<close>

definition py_str :: "json \<Rightarrow> string" where
  "py_str x = (case x of JStr s \<Rightarrow> s | _ \<Rightarrow> py_repr x)"

subsection \<open>\<^verbatim>\<open>int\<close>\<close>

definition is_space :: "char \<Rightarrow> bool" where
  "is_space c = (c = CHR '' '' \<or> (9 \<le> (of_char c :: nat) \<and> (of_char c :: nat) \<le> 13))"

text \<open>Digits, with single underscores allowed between two of them.\<close>

fun int_body_ok :: "string \<Rightarrow> bool" where
  "int_body_ok [] = False"
| "int_body_ok [c] = is_digit c"
| "int_body_ok (c # d # r) =
     (is_digit c \<and> (if d = CHR ''_'' then int_body_ok r else int_body_ok (d # r)))"

text \<open>
  \<^verbatim>\<open>int(s)\<close> on a string: surrounding whitespace is dropped, one sign is allowed, the rest
  is the digits.
\<close>

definition int_of_str :: "string \<Rightarrow> py_error + int" where
  "int_of_str s =
     (let t = rev (dropWhile is_space (rev (dropWhile is_space s)));
          neg = (case t of [] \<Rightarrow> False | c # _ \<Rightarrow> c = CHR ''-'');
          body = (case t of [] \<Rightarrow> [] | c # r \<Rightarrow> if c = CHR ''-'' \<or> c = CHR ''+'' then r else t)
      in if int_body_ok body
         then Inr ((if neg then - 1 else 1) * int (nat_of_digits (filter (\<lambda>c. c \<noteq> CHR ''_'') body)))
         else Inl ValueError)"

fun py_int :: "json \<Rightarrow> py_error + int" where
  "py_int (JNum n) = Inr n"
| "py_int (JBool b) = Inr (if b then 1 else 0)"
| "py_int (JStr s) = int_of_str s"
| "py_int _ = Inl TypeError"

section \<open>The field normalizer\<close>

subsection \<open>fftcg_database_manager.py\<close>

text \<open>
  The keys of the element table are the eight Japanese tokens, as UTF-8 bytes. In
  \<^verbatim>\<open>mapping.get(x, x.lower())\<close> the default is computed before the lookup, so a value that is
  not a str has no \<^verbatim>\<open>lower\<close> and the call raises. fetch_missing_sets.py defines
  \<^verbatim>\<open>element_mapping\<close>, \<^verbatim>\<open>type_mapping\<close> and \<^verbatim>\<open>safe_int\<close> with the same bodies.
\<close>

definition element_table :: "(string \<times> string) list" where
  "element_table =
     [([CHR 0xE7, CHR 0x81, CHR 0xAB], ''fire''),
      ([CHR 0xE6, CHR 0xB0, CHR 0xB7], ''ice''),
      ([CHR 0xE9, CHR 0xA2, CHR 0xA8], ''wind''),
      ([CHR 0xE9, CHR 0x9B, CHR 0xB7], ''lightning''),
      ([CHR 0xE6, CHR 0xB0, CHR 0xB4], ''water''),
      ([CHR 0xE5, CHR 0x9C, CHR 0x9F], ''earth''),
      ([CHR 0xE5, CHR 0x85, CHR 0x89], ''light''),
      ([CHR 0xE9, CHR 0x97, CHR 0x87], ''dark'')]"

definition element_mapping :: "json \<Rightarrow> py_error + string" where
  "element_mapping element_jp =
     (if \<not> truthy element_jp then Inr ''unknown''
      else case element_jp of
             JStr s \<Rightarrow> Inr (case map_of element_table s of Some v \<Rightarrow> v | None \<Rightarrow> lower s)
           | _ \<Rightarrow> Inl AttributeError)"

definition type_table :: "(string \<times> string) list" where
  "type_table =
     [(''Forward'', ''forward''), (''Backup'', ''backup''),
      (''Summon'', ''summon''), (''Monster'', ''monster'')]"

definition type_mapping :: "json \<Rightarrow> py_error + string" where
  "type_mapping type_en =
     (if \<not> truthy type_en then Inr ''unknown''
      else case type_en of
             JStr s \<Rightarrow> Inr (case map_of type_table s of Some v \<Rightarrow> v | None \<Rightarrow> lower s)
           | _ \<Rightarrow> Inl AttributeError)"

text \<open>
  \<^verbatim>\<open>safe_int(value, default)\<close>: any exception of the conversion is caught and gives the
  default as well.
\<close>

definition safe_int :: "json \<Rightarrow> json \<Rightarrow> json" where
  "safe_int v dflt =
     (if truthy v \<and> isdigit (py_str v)
      then (case py_int v of Inr n \<Rightarrow> JNum n | Inl e \<Rightarrow> dflt)
      else dflt)"

text \<open>The element of a card, computed in front of the dict of \<^verbatim>\<open>fetch_set_data\<close>.\<close>

definition card_element :: "pydict \<Rightarrow> py_error + string" where
  "card_element card_data =
     (let e = dict_get card_data ''element'' JNull in
      if truthy e
      then (case py_len e of
              Inl err \<Rightarrow> Inl err
            | Inr n \<Rightarrow>
                if n > 0
                then (case py_getitem0 e of Inl err \<Rightarrow> Inl err | Inr x \<Rightarrow> element_mapping x)
                else Inr ''unknown'')
      else Inr ''unknown'')"

text \<open>
  The image of a card: \<^verbatim>\<open>card_data["images"]["full"][0]\<close> when the three tests in front of
  it pass, no key otherwise.
\<close>

definition card_image :: "pydict \<Rightarrow> py_error + json option" where
  "card_image card_data =
     (case map_of card_data ''images'' of
        None \<Rightarrow> Inr None
      | Some images \<Rightarrow>
          (case py_contains images ''full'' of
             Inl err \<Rightarrow> Inl err
           | Inr has_full \<Rightarrow>
               if has_full
               then (case py_getitem images ''full'' of
                       Inl err \<Rightarrow> Inl err
                     | Inr full \<Rightarrow>
                         if truthy full
                         then (case py_getitem0 full of
                                 Inl err \<Rightarrow> Inl err
                               | Inr x \<Rightarrow> Inr (Some x))
                         else Inr None)
               else Inr None))"

text \<open>
  The body of the loop of \<^verbatim>\<open>fetch_set_data\<close>: the dict of one card, or the exception that
  the \<^verbatim>\<open>try\<close> around the body catches. The exceptions come in the order of the source: the
  element, the type inside the dict, the image after it.
\<close>

definition convert_card :: "pydict \<Rightarrow> string \<Rightarrow> py_error + pydict" where
  "convert_card card_data set_name =
     (case card_element card_data of
        Inl err \<Rightarrow> Inl err
      | Inr element \<Rightarrow>
     (case type_mapping (dict_get card_data ''type_en'' (JStr '''')) of
        Inl err \<Rightarrow> Inl err
      | Inr type_en \<Rightarrow>
     (let card_d =
        [(''id'', dict_get card_data ''code'' (JStr ''unknown'')),
         (''name'', dict_get card_data ''name_en'' (JStr '''')),
         (''element'', JStr element),
         (''type'', JStr type_en),
         (''cost'', safe_int (dict_get card_data ''cost'' JNull) (JNum 0)),
         (''power'', if truthy (dict_get card_data ''power'' JNull)
                     then safe_int (dict_get card_data ''power'' JNull) (JNum 0) else JNull),
         (''job'', dict_get card_data ''job_en'' (JStr '''')),
         (''category'', dict_get card_data ''category_1'' (JStr '''')),
         (''rarity'', JStr (upper (py_str (dict_get card_data ''rarity'' (JStr ''C''))))),
         (''text'', dict_get card_data ''text_en'' (JStr '''')),
         (''set'', JStr set_name),
         (''cardNumber'', dict_get card_data ''code'' (JStr ''unknown'')),
         (''hasRealImage'', JBool True),
         (''source'', JStr ''square-api'')]
      in case card_image card_data of
           Inl err \<Rightarrow> Inl err
         | Inr None \<Rightarrow> Inr card_d
         | Inr (Some img) \<Rightarrow> Inr (card_d @ [(''image'', img)]))))"

text \<open>
  The loop over \<^verbatim>\<open>data["cards"]\<close>: a card whose body raised is reported and left out, and
  the loop goes on with the next one.
\<close>

fun convert_cards :: "pydict list \<Rightarrow> string \<Rightarrow> pydict list" where
  "convert_cards [] set_name = []"
| "convert_cards (card_data # rest) set_name =
     (case convert_card card_data set_name of
        Inl err \<Rightarrow> convert_cards rest set_name
      | Inr card_d \<Rightarrow> card_d # convert_cards rest set_name)"

text \<open>
  What the request gave: an exception (transport, status or decoding), a JSON object
  without the key cards, or the list of raw card records.
\<close>

datatype api_response = RequestFailed | NoCards | Cards "pydict list"

definition fetch_set_data :: "api_response \<Rightarrow> string \<Rightarrow> pydict list" where
  "fetch_set_data response set_name =
     (case response of
        RequestFailed \<Rightarrow> []
      | NoCards \<Rightarrow> []
      | Cards raw \<Rightarrow> convert_cards raw set_name)"

subsection \<open>fetch_missing_sets.py\<close>

text \<open>
  The loop body of fetch_missing_sets.py is the one above but for the rarity, which is
  \<^verbatim>\<open>rarity_mapping(card_data.get("rarity"))\<close>.
\<close>

definition rarity_mapping :: "json \<Rightarrow> string" where
  "rarity_mapping rarity = (if \<not> truthy rarity then ''C'' else upper (py_str rarity))"

definition card_rarity :: "pydict \<Rightarrow> string" where
  "card_rarity card_data = rarity_mapping (dict_get card_data ''rarity'' JNull)"

subsection \<open>fetch_fftcg_data.py\<close>

text \<open>
  The oldest of the three versions of the loop. Its mapping functions have no test in front of the lookup,
  \<^verbatim>\<open>code\<close> and \<^verbatim>\<open>element\<close> are read with \<^verbatim>\<open>card_data[...]\<close>, the digit test is called on the
  value as it is, and there is no \<^verbatim>\<open>try\<close> inside the loop: an exception ends the loop and
  the handler of \<^verbatim>\<open>fetch_set_data\<close> returns the empty list for the whole set.
\<close>

definition element_mapping_ffd :: "json \<Rightarrow> py_error + string" where
  "element_mapping_ffd element_jp =
     (case element_jp of
        JStr s \<Rightarrow> Inr (case map_of element_table s of Some v \<Rightarrow> v | None \<Rightarrow> lower s)
      | _ \<Rightarrow> Inl AttributeError)"

definition type_mapping_ffd :: "json \<Rightarrow> py_error + string" where
  "type_mapping_ffd type_en =
     (case type_en of
        JStr s \<Rightarrow> Inr (case map_of type_table s of Some v \<Rightarrow> v | None \<Rightarrow> lower s)
      | _ \<Rightarrow> Inl AttributeError)"

definition rarity_mapping_ffd :: "json \<Rightarrow> py_error + string" where
  "rarity_mapping_ffd rarity = (case rarity of JStr s \<Rightarrow> Inr (upper s) | _ \<Rightarrow> Inl AttributeError)"

definition card_element_ffd :: "pydict \<Rightarrow> py_error + string" where
  "card_element_ffd card_data =
     (case map_of card_data ''element'' of
        None \<Rightarrow> Inl KeyError
      | Some e \<Rightarrow>
          if truthy e
          then (case py_getitem0 e of Inl err \<Rightarrow> Inl err | Inr x \<Rightarrow> element_mapping_ffd x)
          else Inr ''unknown'')"

text \<open>
  \<^verbatim>\<open>int(card_data.get(key, 0)) if card_data.get(key, "").isdigit() else dflt\<close>, for the cost
  and the power.
\<close>

definition card_number_ffd :: "pydict \<Rightarrow> string \<Rightarrow> json \<Rightarrow> py_error + json" where
  "card_number_ffd card_data key dflt =
     (case dict_get card_data key (JStr '''') of
        JStr s \<Rightarrow>
          if isdigit s
          then (case py_int (dict_get card_data key (JNum 0)) of
                  Inl err \<Rightarrow> Inl err
                | Inr n \<Rightarrow> Inr (JNum n))
          else Inr dflt
      | _ \<Rightarrow> Inl AttributeError)"

definition card_rarity_ffd :: "pydict \<Rightarrow> py_error + string" where
  "card_rarity_ffd card_data = rarity_mapping_ffd (dict_get card_data ''rarity'' (JStr ''''))"

definition card_image_ffd :: "pydict \<Rightarrow> py_error + json option" where
  "card_image_ffd card_data =
     (case map_of card_data ''images'' of
        None \<Rightarrow> Inr None
      | Some images \<Rightarrow>
          (case py_contains images ''full'' of
             Inl err \<Rightarrow> Inl err
           | Inr has_full \<Rightarrow>
               if has_full
               then (case py_getitem images ''full'' of
                       Inl err \<Rightarrow> Inl err
                     | Inr full \<Rightarrow>
                         (case py_getitem0 full of
                            Inl err \<Rightarrow> Inl err
                          | Inr x \<Rightarrow> Inr (Some x)))
               else Inr None))"

definition convert_card_ffd :: "pydict \<Rightarrow> string \<Rightarrow> py_error + pydict" where
  "convert_card_ffd card_data set_name =
     (case map_of card_data ''code'' of
        None \<Rightarrow> Inl KeyError
      | Some code \<Rightarrow>
     (case card_element_ffd card_data of
        Inl err \<Rightarrow> Inl err
      | Inr element \<Rightarrow>
     (case type_mapping_ffd (dict_get card_data ''type_en'' (JStr '''')) of
        Inl err \<Rightarrow> Inl err
      | Inr type_en \<Rightarrow>
     (case card_number_ffd card_data ''cost'' (JNum 0) of
        Inl err \<Rightarrow> Inl err
      | Inr cost \<Rightarrow>
     (case card_number_ffd card_data ''power'' JNull of
        Inl err \<Rightarrow> Inl err
      | Inr power_v \<Rightarrow>
     (case card_rarity_ffd card_data of
        Inl err \<Rightarrow> Inl err
      | Inr rarity \<Rightarrow>
     (let card_d =
        [(''id'', code),
         (''name'', dict_get card_data ''name_en'' (JStr '''')),
         (''element'', JStr element),
         (''type'', JStr type_en),
         (''cost'', cost),
         (''power'', power_v),
         (''job'', dict_get card_data ''job_en'' (JStr '''')),
         (''category'', dict_get card_data ''category_1'' (JStr '''')),
         (''rarity'', JStr rarity),
         (''text'', dict_get card_data ''text_en'' (JStr '''')),
         (''set'', JStr set_name),
         (''cardNumber'', code),
         (''hasRealImage'', JBool True),
         (''source'', JStr ''square-api'')]
      in case card_image_ffd card_data of
           Inl err \<Rightarrow> Inl err
         | Inr None \<Rightarrow> Inr card_d
         | Inr (Some img) \<Rightarrow> Inr (card_d @ [(''image'', img)]))))))))"

fun convert_cards_ffd :: "pydict list \<Rightarrow> string \<Rightarrow> py_error + pydict list" where
  "convert_cards_ffd [] set_name = Inr []"
| "convert_cards_ffd (card_data # rest) set_name =
     (case convert_card_ffd card_data set_name of
        Inl err \<Rightarrow> Inl err
      | Inr card_d \<Rightarrow>
          (case convert_cards_ffd rest set_name of
             Inl err \<Rightarrow> Inl err
           | Inr cards \<Rightarrow> Inr (card_d # cards)))"

definition fetch_set_data_ffd :: "api_response \<Rightarrow> string \<Rightarrow> pydict list" where
  "fetch_set_data_ffd response set_name =
     (case response of
        RequestFailed \<Rightarrow> []
      | NoCards \<Rightarrow> []
      | Cards raw \<Rightarrow>
          (case convert_cards_ffd raw set_name of Inl err \<Rightarrow> [] | Inr cards \<Rightarrow> cards))"

subsection \<open>extract_all_cards.py\<close>

text \<open>
  \<^verbatim>\<open>convert_to_app_format\<close> has no \<^verbatim>\<open>try\<close> of its own but the one around the image, whose
  handler gives \<^verbatim>\<open>None\<close>. \<^verbatim>\<open>json.loads\<close> is the parameter \<open>loads\<close>.
\<close>

definition app_image_url :: "(json \<Rightarrow> py_error + json) \<Rightarrow> pydict \<Rightarrow> json" where
  "app_image_url loads square_card =
     (case loads (dict_get square_card ''image'' (JStr ''{}'')) of
        Inl err \<Rightarrow> JNull
      | Inr image_json \<Rightarrow>
          (case image_json of
             JObj d \<Rightarrow>
               (case dict_get d ''1'' (JObj []) of
                  JObj d1 \<Rightarrow>
                    (let image_filename = dict_get d1 ''filename'' (JStr '''') in
                     if truthy image_filename
                     then JStr (''https://fftcg.square-enix-games.com/'' @ py_str image_filename)
                     else JNull)
                | _ \<Rightarrow> JNull)
           | _ \<Rightarrow> JNull))"

definition app_element :: "pydict \<Rightarrow> py_error + string" where
  "app_element square_card =
     (let element = dict_get square_card ''element'' (JList [JStr ''unknown'']);
          element = (case element of
                       JList xs \<Rightarrow> (case xs of [] \<Rightarrow> JStr ''unknown'' | x # _ \<Rightarrow> x)
                     | _ \<Rightarrow> element)
      in case element of
           JStr s \<Rightarrow> Inr (case map_of element_table s of Some v \<Rightarrow> v | None \<Rightarrow> lower s)
         | _ \<Rightarrow> Inl AttributeError)"

definition app_type :: "pydict \<Rightarrow> py_error + string" where
  "app_type square_card =
     (case dict_get square_card ''type_en'' (JStr ''unknown'') of
        JStr s \<Rightarrow> Inr (lower s)
      | _ \<Rightarrow> Inl AttributeError)"

definition app_power :: "pydict \<Rightarrow> py_error + json" where
  "app_power square_card =
     (if truthy (dict_get square_card ''power'' JNull)
      then (case py_int (dict_get square_card ''power'' (JNum 0)) of
              Inl err \<Rightarrow> Inl err
            | Inr n \<Rightarrow> Inr (JNum n))
      else Inr JNull)"

definition convert_to_app_format ::
    "(json \<Rightarrow> py_error + json) \<Rightarrow> pydict \<Rightarrow> string \<Rightarrow> py_error + pydict" where
  "convert_to_app_format loads square_card set_name =
     (case app_element square_card of
        Inl err \<Rightarrow> Inl err
      | Inr element \<Rightarrow>
     (case app_type square_card of
        Inl err \<Rightarrow> Inl err
      | Inr type_en \<Rightarrow>
     (case py_int (dict_get square_card ''cost'' (JNum 0)) of
        Inl err \<Rightarrow> Inl err
      | Inr cost \<Rightarrow>
     (case app_power square_card of
        Inl err \<Rightarrow> Inl err
      | Inr power_v \<Rightarrow>
          Inr [(''id'', dict_get square_card ''code'' (JStr ''unknown'')),
               (''name'', dict_get square_card ''name_en'' (JStr ''Unknown'')),
               (''element'', JStr element),
               (''type'', JStr type_en),
               (''cost'', JNum cost),
               (''power'', power_v),
               (''job'', dict_get square_card ''job_en'' JNull),
               (''category'', dict_get square_card ''category_1'' JNull),
               (''rarity'', dict_get square_card ''rarity'' (JStr ''C'')),
               (''text'', dict_get square_card ''text_en'' (JStr '''')),
               (''set'', JStr set_name),
               (''cardNumber'', dict_get square_card ''code'' (JStr ''unknown'')),
               (''image'', app_image_url loads square_card),
               (''source'', JStr ''square-api''),
               (''hasRealImage'', JBool True)]))))"

section \<open>The image URL resolver\<close>

text \<open>
  \<^verbatim>\<open>re.match(r'^(\d+)-', card_id)\<close>: the longest run of leading digits, which must not be
  empty and must be followed by a hyphen; the result is group 1.
\<close>

definition opus_match :: "string \<Rightarrow> string option" where
  "opus_match card_id =
     (let ds = takeWhile is_digit card_id in
      case dropWhile is_digit card_id of
        [] \<Rightarrow> None
      | c # _ \<Rightarrow> if ds \<noteq> [] \<and> c = CHR ''-'' then Some ds else None)"

text \<open>
  \<^verbatim>\<open>re.sub(r'[A-Z]+$', '', card_id)\<close>: the trailing run of capital letters is removed.
  Without the MULTILINE flag \<^verbatim>\<open>$\<close> also matches just before a newline that ends the
  string, so a run of capitals in front of a final newline is removed as well.
\<close>

definition strip_capitals :: "string \<Rightarrow> string" where
  "strip_capitals s = rev (dropWhile is_upper (rev s))"

definition sub_trailing_capitals :: "string \<Rightarrow> string" where
  "sub_trailing_capitals s =
     (case rev s of
        [] \<Rightarrow> []
      | c # r \<Rightarrow> if c = CHR 0x0A then strip_capitals (rev r) @ [c] else strip_capitals s)"

definition materia_base :: string where
  "materia_base = ''https://storage.googleapis.com/materiahunter-prod.appspot.com/images/cards/''"

text \<open>\<^verbatim>\<open>get_materia_hunter_url\<close> of fftcg_database_manager.py.\<close>

definition get_materia_hunter_url :: "string \<Rightarrow> string option" where
  "get_materia_hunter_url card_id =
     (case opus_match card_id of
        None \<Rightarrow> None
      | Some g \<Rightarrow>
          (let opus_num = nat_of_digits g in
           if 1 \<le> opus_num \<and> opus_num \<le> 19
           then Some (materia_base @ pad2 opus_num @ ''/'' @ sub_trailing_capitals card_id @ ''.jpg'')
           else None))"

text \<open>
  update_image_mapping.py splits the same computation in two functions. A directory is a
  non-empty string, so \<^verbatim>\<open>if not opus_dir\<close> is the test for \<^verbatim>\<open>None\<close>.
\<close>

definition get_materia_hunter_opus_directory :: "string \<Rightarrow> string option" where
  "get_materia_hunter_opus_directory card_id =
     (case opus_match card_id of
        None \<Rightarrow> None
      | Some g \<Rightarrow>
          (let opus_num = nat_of_digits g in
           if 1 \<le> opus_num \<and> opus_num \<le> 19 then Some (pad2 opus_num) else None))"

definition generate_materia_hunter_url :: "string \<Rightarrow> string option" where
  "generate_materia_hunter_url card_id =
     (case get_materia_hunter_opus_directory card_id of
        None \<Rightarrow> None
      | Some opus_dir \<Rightarrow>
          if opus_dir = [] then None
          else Some (materia_base @ opus_dir @ ''/'' @ sub_trailing_capitals card_id @ ''.jpg''))"

text \<open>
  generate_materia_hunter_mapping.py has its own two functions of the same names: the
  prefixes \<^verbatim>\<open>B-\<close> and \<^verbatim>\<open>PR-\<close> get the directories boss and promo, and every opus number is
  formatted, whatever its value.
\<close>

definition startswith :: "string \<Rightarrow> string \<Rightarrow> bool" where
  "startswith s p = (take (length p) s = p)"

definition get_materia_hunter_opus_directory_gen :: "string \<Rightarrow> string option" where
  "get_materia_hunter_opus_directory_gen card_id =
     (if startswith card_id ''B-'' then Some ''boss''
      else if startswith card_id ''PR-'' then Some ''promo''
      else case opus_match card_id of
             None \<Rightarrow> None
           | Some g \<Rightarrow> Some (pad2 (nat_of_digits g)))"

definition generate_materia_hunter_url_gen :: "string \<Rightarrow> string option" where
  "generate_materia_hunter_url_gen card_id =
     (case get_materia_hunter_opus_directory_gen card_id of
        None \<Rightarrow> None
      | Some opus_dir \<Rightarrow>
          if opus_dir = [] then None
          else Some (materia_base @ opus_dir @ ''/'' @ sub_trailing_capitals card_id @ ''.jpg''))"

section \<open>The persisted card collection\<close>

text \<open>
  A record of \<^verbatim>\<open>js/data/fftcg_real_cards.json\<close>, typed as the data model has it: the keys
  the scripts read after loading are strings, but for \<^verbatim>\<open>image\<close>. That key may be missing
  (\<open>None\<close>), and when it is there its value is kept as the JSON value it is: the image loop
  tests the key and copies the value, and extract_all_cards.py writes the key with the
  value \<^verbatim>\<open>null\<close> for a card without image. The other keys of the dict are carried along in
  \<open>others_c\<close>. On such records \<^verbatim>\<open>in\<close> on a set of ids is equality of strings and the sort
  key is a pair of strings, compared code point by code point.
\<close>

record card =
  id_c :: string
  name_c :: string
  set_c :: string
  cardNumber_c :: string
  image_c :: "json option"
  others_c :: pydict

subsection \<open>Merge and dedup\<close>

text \<open>
  The loop of \<^verbatim>\<open>fetch_missing_sets\<close> (fftcg_database_manager.py) and of \<^verbatim>\<open>main\<close>
  (fetch_missing_sets.py) over \<^verbatim>\<open>all_cards\<close>, with its two variables \<^verbatim>\<open>seen_ids\<close> and
  \<^verbatim>\<open>unique_cards\<close>.
\<close>

fun dedup_loop :: "card list \<Rightarrow> string set \<Rightarrow> card list \<Rightarrow> card list" where
  "dedup_loop [] seen_ids unique_cards = unique_cards"
| "dedup_loop (c # all_cards) seen_ids unique_cards =
     (if id_c c \<notin> seen_ids
      then dedup_loop all_cards (insert (id_c c) seen_ids) (unique_cards @ [c])
      else dedup_loop all_cards seen_ids unique_cards)"

text \<open>\<^verbatim>\<open>cards.sort(key=lambda x: (x["set"], x["cardNumber"]))\<close>; Python's sort is stable.\<close>

definition sort_cards :: "card list \<Rightarrow> card list" where
  "sort_cards cards = sort_key (\<lambda>x. (set_c x, cardNumber_c x)) cards"

text \<open>The merge step: what is written when \<^verbatim>\<open>new_cards\<close> is not empty.\<close>

definition merge_cards :: "card list \<Rightarrow> card list \<Rightarrow> card list" where
  "merge_cards existing_cards new_cards =
     sort_cards (dedup_loop (existing_cards @ new_cards) {} [])"

subsection \<open>The image mapping\<close>

text \<open>
  \<^verbatim>\<open>js/data/card_image_mapping.json\<close> is a dict from card id to an entry, itself a dict with
  the keys name, image and source. Assigning to a key that is there keeps its place, a new
  key goes to the end: that is \<^const>\<open>AList.update\<close>.
\<close>

type_synonym image_mapping = "(string \<times> pydict) list"

text \<open>
  \<^verbatim>\<open>card_id in existing_mapping and existing_mapping[card_id].get('source') == 'materia-hunter'\<close>
\<close>

definition keeps_existing :: "image_mapping \<Rightarrow> string \<Rightarrow> bool" where
  "keeps_existing existing_mapping card_id =
     (case map_of existing_mapping card_id of
        None \<Rightarrow> False
      | Some entry \<Rightarrow> dict_get entry ''source'' JNull = JStr ''materia-hunter'')"

text \<open>
  One round of the loop of \<^verbatim>\<open>update_image_mappings\<close> (fftcg_database_manager.py) and of
  \<^verbatim>\<open>main\<close> (update_image_mapping.py); the two differ in the name of the resolver, which is
  the parameter \<open>resolver\<close>. A URL that the resolver returns is never empty, so
  \<^verbatim>\<open>if materia_url\<close> is the test for \<^verbatim>\<open>None\<close>. The last test, \<^verbatim>\<open>'image' in card\<close>, is
  for the key, whatever its value.
\<close>

definition image_step ::
    "(string \<Rightarrow> string option) \<Rightarrow> image_mapping \<Rightarrow> image_mapping \<Rightarrow> card \<Rightarrow> image_mapping" where
  "image_step resolver existing_mapping new_mappings c =
     (let card_id = id_c c in
      if keeps_existing existing_mapping card_id
      then (case map_of existing_mapping card_id of
              None \<Rightarrow> new_mappings
            | Some entry \<Rightarrow> AList.update card_id entry new_mappings)
      else (case resolver card_id of
              Some materia_url \<Rightarrow>
                AList.update card_id
                  [(''name'', JStr (name_c c)), (''image'', JStr materia_url),
                   (''source'', JStr ''materia-hunter'')]
                  new_mappings
            | None \<Rightarrow>
                (case image_c c of
                   Some img \<Rightarrow>
                     AList.update card_id
                       [(''name'', JStr (name_c c)), (''image'', img),
                        (''source'', JStr ''square-enix'')]
                       new_mappings
                 | None \<Rightarrow> new_mappings)))"

definition image_loop ::
    "(string \<Rightarrow> string option) \<Rightarrow> image_mapping \<Rightarrow> card list \<Rightarrow> image_mapping" where
  "image_loop resolver existing_mapping cards =
     foldl (image_step resolver existing_mapping) [] cards"

section \<open>Runs on the two files\<close>

text \<open>The two JSON files; \<open>None\<close> is a file that is not there.\<close>

record files =
  cards_file :: "card list option"
  mapping_file :: "image_mapping option"

text \<open>
  \<^verbatim>\<open>fetch_all_sets\<close>: \<open>fetched\<close> gives the result of \<^verbatim>\<open>fetch_set_data\<close> for each set name.
  Extending by an empty list changes nothing, so the test \<^verbatim>\<open>if cards\<close> is not in the way of
  the concatenation.
\<close>

definition fetch_all_sets :: "(string \<Rightarrow> card list) \<Rightarrow> string list \<Rightarrow> files \<Rightarrow> files" where
  "fetch_all_sets fetched all_sets fs =
     (let all_cards = concat (map fetched all_sets)
      in fs\<lparr>cards_file := Some (sort_cards all_cards)\<rparr>)"

text \<open>
  \<^verbatim>\<open>fetch_missing_sets\<close> of fftcg_database_manager.py and \<^verbatim>\<open>main\<close> of fetch_missing_sets.py:
  when the card file cannot be loaded the error is printed and the function returns; the
  file is written only when some new card was fetched.
\<close>

definition fetch_missing_sets :: "(string \<Rightarrow> card list) \<Rightarrow> string list \<Rightarrow> files \<Rightarrow> files" where
  "fetch_missing_sets fetched missing_sets fs =
     (case cards_file fs of
        None \<Rightarrow> fs
      | Some existing_cards \<Rightarrow>
          (let new_cards = concat (map fetched missing_sets)
           in if new_cards \<noteq> []
              then fs\<lparr>cards_file := Some (merge_cards existing_cards new_cards)\<rparr>
              else fs))"

text \<open>
  \<^verbatim>\<open>update_image_mappings\<close> of fftcg_database_manager.py and \<^verbatim>\<open>main\<close> of
  update_image_mapping.py: the card file is opened outside any \<^verbatim>\<open>try\<close>, the mapping file
  inside one whose handler takes the empty dict.
\<close>

definition update_images ::
    "(string \<Rightarrow> string option) \<Rightarrow> files \<Rightarrow> py_error + files" where
  "update_images resolver fs =
     (case cards_file fs of
        None \<Rightarrow> Inl FileNotFoundError
      | Some cards \<Rightarrow>
          (let existing_mapping = (case mapping_file fs of None \<Rightarrow> [] | Some m \<Rightarrow> m)
           in Inr (fs\<lparr>mapping_file := Some (image_loop resolver existing_mapping cards)\<rparr>)))"

definition update_image_mappings :: "files \<Rightarrow> py_error + files" where
  "update_image_mappings fs = update_images get_materia_hunter_url fs"

definition update_image_mapping_main :: "files \<Rightarrow> py_error + files" where
  "update_image_mapping_main fs = update_images generate_materia_hunter_url fs"

text \<open>
  \<^verbatim>\<open>ALL_SETS\<close> of fftcg_database_manager.py: the fourteen numbered sets, with the Roman
  numerals that \<^verbatim>\<open>roman.toRoman\<close> writes, then the named ones.
\<close>

definition ALL_SETS :: "string list" where
  "ALL_SETS =
     [''Opus I'', ''Opus II'', ''Opus III'', ''Opus IV'', ''Opus V'', ''Opus VI'', ''Opus VII'',
      ''Opus VIII'', ''Opus IX'', ''Opus X'', ''Opus XI'', ''Opus XII'', ''Opus XIII'', ''Opus XIV'',
      ''Crystal Dominion'', ''Emissaries of Light'', ''Rebellion's Call'',
      ''Resurgence of Power'', ''From Nightmares'', ''Dawn of Heroes'',
      ''Beyond Destiny'', ''Hidden Hope'', ''Hidden Trials'', ''Hidden Legends'',
      ''Tears of the Planet'',
      ''Boss Deck Chaos'', ''Legacy Collection'']"

section \<open>Notions used in the statements\<close>

subsection \<open>Raw records the loop body can read\<close>

text \<open>
  Which values of the three fields that \<^const>\<open>convert_card\<close> inspects let it through. The
  element: a false value, a non-empty str, or a list that starts with a false value or a
  str. The type: a false value or a str. The images: no key, a str or list without
  \<^verbatim>\<open>full\<close> in it, or a dict whose \<^verbatim>\<open>full\<close> is missing, false, or a non-empty str or list.
\<close>

definition is_str :: "json \<Rightarrow> bool" where
  "is_str x = (case x of JStr s \<Rightarrow> True | _ \<Rightarrow> False)"

definition element_readable :: "json \<Rightarrow> bool" where
  "element_readable e =
     (if truthy e
      then (case e of
              JStr s \<Rightarrow> True
            | JList xs \<Rightarrow> (case xs of [] \<Rightarrow> True | x # _ \<Rightarrow> if truthy x then is_str x else True)
            | _ \<Rightarrow> False)
      else True)"

definition type_readable :: "json \<Rightarrow> bool" where
  "type_readable t = (if truthy t then is_str t else True)"

definition images_readable :: "json option \<Rightarrow> bool" where
  "images_readable im =
     (case im of
        None \<Rightarrow> True
      | Some (JStr s) \<Rightarrow> \<not> is_substring ''full'' s
      | Some (JList xs) \<Rightarrow> JStr ''full'' \<notin> set xs
      | Some (JObj d) \<Rightarrow>
          (case map_of d ''full'' of
             None \<Rightarrow> True
           | Some full \<Rightarrow>
               if truthy full
               then (case full of JStr s \<Rightarrow> True | JList xs \<Rightarrow> True | _ \<Rightarrow> False)
               else True)
      | Some _ \<Rightarrow> False)"

definition readable :: "pydict \<Rightarrow> bool" where
  "readable card_data =
     (element_readable (dict_get card_data ''element'' JNull)
      \<and> type_readable (dict_get card_data ''type_en'' (JStr ''''))
      \<and> images_readable (map_of card_data ''images''))"

subsection \<open>The entry of one card\<close>

text \<open>What one round of the image loop writes under the id of its card, if anything.\<close>

definition entry_for ::
    "(string \<Rightarrow> string option) \<Rightarrow> image_mapping \<Rightarrow> card \<Rightarrow> pydict option" where
  "entry_for resolver existing_mapping c =
     (if keeps_existing existing_mapping (id_c c) then map_of existing_mapping (id_c c)
      else case resolver (id_c c) of
             Some url \<Rightarrow>
               Some [(''name'', JStr (name_c c)), (''image'', JStr url),
                     (''source'', JStr ''materia-hunter'')]
           | None \<Rightarrow>
               (case image_c c of
                  Some img \<Rightarrow>
                    Some [(''name'', JStr (name_c c)), (''image'', img),
                          (''source'', JStr ''square-enix'')]
                | None \<Rightarrow> None))"

subsection \<open>Sample data\<close>

definition auron :: card where
  "auron = \<lparr>id_c = ''1-001H'', name_c = ''Auron'', set_c = ''Opus I'',
            cardNumber_c = ''1-001H'', image_c = None, others_c = []\<rparr>"

definition auron_reprint :: card where
  "auron_reprint = \<lparr>id_c = ''1-001H'', name_c = ''Auron (reprint)'', set_c = ''Legacy Collection'',
            cardNumber_c = ''1-001H'', image_c = Some (JStr ''https://fftcg.cdn.sewest.net/images/cards/full/1-001H_eg.jpg''),
            others_c = []\<rparr>"

definition ifrit :: card where
  "ifrit = \<lparr>id_c = ''2-005R'', name_c = ''Ifrit'', set_c = ''Opus II'',
            cardNumber_c = ''2-005R'', image_c = None, others_c = []\<rparr>"

definition lenna :: card where
  "lenna = \<lparr>id_c = ''20-001C'', name_c = ''Lenna'', set_c = ''Dawn of Heroes'',
            cardNumber_c = ''20-001C'', image_c = Some (JStr ''https://fftcg.cdn.sewest.net/images/cards/full/20-001C_eg.jpg''),
            others_c = []\<rparr>"

definition promo :: card where
  "promo = \<lparr>id_c = ''PR-001'', name_c = ''Cloud'', set_c = ''Promo'',
            cardNumber_c = ''PR-001'', image_c = None, others_c = []\<rparr>"

text \<open>
  A second record with the id of \<^const>\<open>ifrit\<close>; a promo card whose \<^verbatim>\<open>image\<close> is \<^verbatim>\<open>null\<close>, as
  extract_all_cards.py writes it; and two records of one id of which only the first has the
  key.
\<close>

definition ifrit_foil :: card where
  "ifrit_foil = \<lparr>id_c = ''2-005R'', name_c = ''Ifrit (foil)'', set_c = ''Opus II'',
            cardNumber_c = ''2-005R'', image_c = None, others_c = []\<rparr>"

definition tifa :: card where
  "tifa = \<lparr>id_c = ''PR-002'', name_c = ''Tifa'', set_c = ''Promo'',
            cardNumber_c = ''PR-002'', image_c = Some JNull, others_c = []\<rparr>"

definition yuna :: card where
  "yuna = \<lparr>id_c = ''21-010H'', name_c = ''Yuna'', set_c = ''Beyond Destiny'',
            cardNumber_c = ''21-010H'',
            image_c = Some (JStr ''https://fftcg.cdn.sewest.net/images/cards/full/21-010H_eg.jpg''),
            others_c = []\<rparr>"

definition yuna_bare :: card where
  "yuna_bare = \<lparr>id_c = ''21-010H'', name_c = ''Yuna (no image)'', set_c = ''Beyond Destiny'',
            cardNumber_c = ''21-010H'', image_c = None, others_c = []\<rparr>"

definition sample_cards :: "card list" where
  "sample_cards = [auron, ifrit, lenna, promo, tifa, yuna, ifrit_foil, yuna_bare]"

definition sample_mapping :: image_mapping where
  "sample_mapping =
     [(''1-001H'', [(''name'', JStr ''Auron''), (''image'', JStr ''https://example.org/auron.jpg''),
                    (''source'', JStr ''materia-hunter'')]),
      (''9-999L'', [(''name'', JStr ''Gone''), (''image'', JStr ''https://example.org/gone.jpg''),
                    (''source'', JStr ''materia-hunter'')]),
      (''20-001C'', [(''name'', JStr ''Lenna''), (''image'', JStr ''https://example.org/old.jpg''),
                     (''source'', JStr ''square-enix'')])]"

text \<open>
  A fetch in which the API lists the card \<^verbatim>\<open>1-001H\<close> under Opus I and, as a reprint, under
  Legacy Collection, and nothing for the other sets.
\<close>

definition reprint_fetched :: "string \<Rightarrow> card list" where
  "reprint_fetched set_name =
     (if set_name = ''Opus I'' then [auron]
      else if set_name = ''Legacy Collection'' then [auron_reprint]
      else [])"

text \<open>Raw records as the API sends them; the first element token is the one for fire.\<close>

definition raw_auron :: pydict where
  "raw_auron =
     [(''code'', JStr ''1-001H''), (''name_en'', JStr ''Auron''),
      (''element'', JList [JStr [CHR 0xE7, CHR 0x81, CHR 0xAB]]),
      (''type_en'', JStr ''Forward''), (''cost'', JStr ''6''), (''power'', JStr ''9000''),
      (''job_en'', JStr ''Guardian''), (''category_1'', JStr ''X''), (''rarity'', JStr ''h''),
      (''text_en'', JStr ''Brave''),
      (''images'', JObj [(''thumbs'', JList [JStr ''https://fftcg.cdn.sewest.net/images/cards/thumbs/1-001H_eg.jpg'']),
                         (''full'', JList [JStr ''https://fftcg.cdn.sewest.net/images/cards/full/1-001H_eg.jpg''])])]"

definition raw_null_images :: pydict where
  "raw_null_images =
     [(''code'', JStr ''1-002R''), (''name_en'', JStr ''Red Mage''), (''images'', JNull)]"

definition raw_text_power :: pydict where
  "raw_text_power =
     [(''code'', JStr ''1-003C''), (''name_en'', JStr ''Goblin''), (''cost'', JStr ''2''),
      (''power'', JStr ''abc'')]"

definition raw_no_rarity :: pydict where
  "raw_no_rarity =
     [(''code'', JStr ''1-004C''), (''name_en'', JStr ''Bomb''),
      (''element'', JList [JStr [CHR 0xE7, CHR 0x81, CHR 0xAB]]),
      (''type_en'', JStr ''Monster''), (''cost'', JStr ''1'')]"

section \<open>Properties of the image URL resolver\<close>

lemma not_digit_hyphen: "\<not> is_digit CHR ''-''"
  by (simp add: is_digit_def less_eq_char_def)

lemma opus_match_shape:
  assumes "ds \<noteq> []" "list_all is_digit ds"
  shows "opus_match (ds @ CHR ''-'' # rest) = Some ds"
proof -
  have "\<forall>c\<in>set ds. is_digit c" using assms(2) by (simp add: list_all_iff)
  then have t: "takeWhile is_digit (ds @ CHR ''-'' # rest) = ds"
    and d: "dropWhile is_digit (ds @ CHR ''-'' # rest) = CHR ''-'' # rest"
    using not_digit_hyphen by (simp_all add: takeWhile_append2 dropWhile_append2)
  show ?thesis using assms(1) by (simp add: opus_match_def t d)
qed

lemma strip_capitals_append:
  "list_all is_upper ls \<Longrightarrow> strip_capitals (x @ ls) = strip_capitals x"
proof -
  assume "list_all is_upper ls"
  then have "dropWhile is_upper (rev ls @ rev x) = dropWhile is_upper (rev x)"
    by (intro dropWhile_append2) (simp add: list_all_iff)
  then show ?thesis by (simp add: strip_capitals_def)
qed

lemma strip_capitals_id:
  "x = [] \<or> \<not> is_upper (last x) \<Longrightarrow> strip_capitals x = x"
  by (cases x rule: rev_cases) (auto simp: strip_capitals_def)

lemma upper_not_newline: "is_upper c \<Longrightarrow> c \<noteq> CHR 0x0A"
  by (auto simp: is_upper_def less_eq_char_def)

lemma digit_not_newline: "is_digit c \<Longrightarrow> c \<noteq> CHR 0x0A"
  by (auto simp: is_digit_def less_eq_char_def)

lemma digit_not_upper: "is_digit c \<Longrightarrow> \<not> is_upper c"
  by (auto simp: is_digit_def is_upper_def less_eq_char_def)

lemma sub_trailing_no_newline:
  "s \<noteq> [] \<Longrightarrow> last s \<noteq> CHR 0x0A \<Longrightarrow> sub_trailing_capitals s = strip_capitals s"
  by (cases s rule: rev_cases) (auto simp: sub_trailing_capitals_def)

lemma length_digits10_small: "n < 10 \<Longrightarrow> length (digits10 n) = 1"
  by (simp add: digits10.simps)

lemma length_digits10_two: "10 \<le> n \<Longrightarrow> n < 100 \<Longrightarrow> length (digits10 n) = 2"
  by (subst digits10.simps) (simp add: length_digits10_small)

lemma length_pad2: "n < 100 \<Longrightarrow> length (pad2 n) = 2"
  by (cases "n < 10") (simp_all add: pad2_def Let_def length_digits10_small length_digits10_two)

lemma generate_eq_get: "generate_materia_hunter_url card_id = get_materia_hunter_url card_id"
proof -
  have "digits10 n \<noteq> []" for n
    by (subst digits10.simps) simp
  then have "pad2 n \<noteq> []" for n
    by (simp add: pad2_def Let_def)
  then show ?thesis
    by (simp add: generate_materia_hunter_url_def get_materia_hunter_url_def
        get_materia_hunter_opus_directory_def Let_def split: option.splits)
qed

lemma alpha_not_newline: "is_alpha c \<Longrightarrow> c \<noteq> CHR 0x0A"
  by (auto simp: is_alpha_def is_upper_def is_lower_def less_eq_char_def)

text \<open>
  After a part that does not end in a capital, only the capitals at the end of what follows
  are removed.
\<close>

lemma strip_capitals_after:
  assumes "x \<noteq> []" and "\<not> is_upper (last x)"
  shows "strip_capitals (x @ ls) = x @ strip_capitals ls"
proof (cases "list_all is_upper ls")
  case True
  then have "dropWhile is_upper (rev ls) = []" by (simp add: list_all_iff)
  then have "strip_capitals ls = []" by (simp add: strip_capitals_def)
  moreover have "strip_capitals (x @ ls) = strip_capitals x"
    using True by (rule strip_capitals_append)
  moreover have "strip_capitals x = x" using assms by (intro strip_capitals_id) simp
  ultimately show ?thesis by simp
next
  case False
  then obtain c where "c \<in> set (rev ls)" "\<not> is_upper c" by (auto simp: list_all_iff)
  then have "dropWhile is_upper (rev ls @ rev x) = dropWhile is_upper (rev ls) @ rev x"
    by (intro dropWhile_append1)
  then show ?thesis by (simp add: strip_capitals_def)
qed

lemma sub_trailing_letters:
  assumes "list_all is_digit m" and "list_all is_alpha ls"
  shows "sub_trailing_capitals (ds @ ''-'' @ m @ ls) = ds @ ''-'' @ m @ strip_capitals ls"
proof -
  let ?x = "ds @ ''-'' @ m"
  have lastx: "\<not> is_upper (last ?x) \<and> last ?x \<noteq> CHR 0x0A"
  proof (cases m rule: rev_cases)
    case Nil
    then show ?thesis by (simp add: is_upper_def less_eq_char_def)
  next
    case (snoc m' c)
    then have "is_digit c" using assms(1) by simp
    then show ?thesis using snoc by (simp add: digit_not_upper digit_not_newline)
  qed
  have "last (?x @ ls) \<noteq> CHR 0x0A"
  proof (cases ls rule: rev_cases)
    case Nil
    then show ?thesis using lastx by simp
  next
    case (snoc l' c)
    then have "is_alpha c" using assms(2) by simp
    then show ?thesis using snoc by (simp add: alpha_not_newline)
  qed
  then have "sub_trailing_capitals (?x @ ls) = strip_capitals (?x @ ls)"
    by (intro sub_trailing_no_newline) simp_all
  also have "\<dots> = ?x @ strip_capitals ls"
    using lastx by (intro strip_capitals_after) simp_all
  finally show ?thesis by simp
qed

text \<open>
  Claim C5, as the code has it. For an identifier made of a digit run \<open>ds\<close> whose value is
  between 1 and 19, a hyphen, a digit run \<open>m\<close> and a run \<open>ls\<close> of letters, both resolvers
  (fftcg_database_manager.py and update_image_mapping.py) return the URL whose directory is
  the opus number written with two digits and whose file name is the identifier without the
  capital letters A to Z at its end. When all the letters are capitals the file name is the
  identifier without its letters, so that \<^verbatim>\<open>3-040R\<close> gives a URL that ends in
  \<^verbatim>\<open>/03/3-040.jpg\<close>; a letter that is not a capital stays, with all that is in front of it.
\<close>

theorem resolver_supported_shape:
  assumes "ds \<noteq> []" and "list_all is_digit ds"
    and "1 \<le> nat_of_digits ds" and "nat_of_digits ds \<le> 19"
    and "list_all is_digit m" and "list_all is_alpha ls"
  shows "get_materia_hunter_url (ds @ ''-'' @ m @ ls)
           = Some (materia_base @ pad2 (nat_of_digits ds) @ ''/''
                   @ (ds @ ''-'' @ m @ strip_capitals ls) @ ''.jpg'')
       \<and> generate_materia_hunter_url (ds @ ''-'' @ m @ ls)
           = Some (materia_base @ pad2 (nat_of_digits ds) @ ''/''
                   @ (ds @ ''-'' @ m @ strip_capitals ls) @ ''.jpg'')
       \<and> length (pad2 (nat_of_digits ds)) = 2
       \<and> (list_all is_upper ls \<longrightarrow> strip_capitals ls = [])
       \<and> (\<forall>c r. ls = r @ [c] \<and> \<not> is_upper c \<longrightarrow> strip_capitals ls = ls)"
proof -
  have om: "opus_match (ds @ ''-'' @ m @ ls) = Some ds"
    using opus_match_shape [OF assms(1,2)] by simp
  have st: "sub_trailing_capitals (ds @ ''-'' @ m @ ls) = ds @ ''-'' @ m @ strip_capitals ls"
    using assms(5,6) by (rule sub_trailing_letters)
  have g: "get_materia_hunter_url (ds @ ''-'' @ m @ ls)
           = Some (materia_base @ pad2 (nat_of_digits ds) @ ''/''
                   @ (ds @ ''-'' @ m @ strip_capitals ls) @ ''.jpg'')"
    unfolding get_materia_hunter_url_def om st using assms(3,4) by (simp add: Let_def)
  have l: "length (pad2 (nat_of_digits ds)) = 2" using assms(4) by (simp add: length_pad2)
  have u: "strip_capitals ls = []" if "list_all is_upper ls"
    using that by (simp add: strip_capitals_def list_all_iff)
  have k: "strip_capitals ls = ls" if "ls = r @ [c] \<and> \<not> is_upper c" for c r
    using that by (simp add: strip_capitals_def)
  show ?thesis using g l u k by (simp only: generate_eq_get simp_thms) blast
qed

theorem resolver_supported_shape_witness:
  "get_materia_hunter_url ''3-040R'' = Some (materia_base @ ''03/3-040.jpg'')
   \<and> generate_materia_hunter_url ''3-040R'' = Some (materia_base @ ''03/3-040.jpg'')
   \<and> get_materia_hunter_url ''19-128Lb'' = Some (materia_base @ ''19/19-128Lb.jpg'')"
proof -
  have a: "''3'' \<noteq> []" "list_all is_digit ''3''" "1 \<le> nat_of_digits ''3''" "nat_of_digits ''3'' \<le> 19"
    "list_all is_digit ''040''" "list_all is_alpha ''R''"
    by code_simp+
  have b: "''19'' \<noteq> []" "list_all is_digit ''19''" "1 \<le> nat_of_digits ''19''"
    "nat_of_digits ''19'' \<le> 19" "list_all is_digit ''128''" "list_all is_alpha ''Lb''"
    by code_simp+
  have p: "pad2 (nat_of_digits ''3'') = ''03''" "pad2 (nat_of_digits ''19'') = ''19''"
    and u: "list_all is_upper ''R''" and n: "''Lb'' = ''L'' @ ''b'' \<and> \<not> is_upper CHR ''b''"
    by code_simp+
  have "get_materia_hunter_url ''3-040R'' = Some (materia_base @ ''03/3-040.jpg'')
        \<and> generate_materia_hunter_url ''3-040R'' = Some (materia_base @ ''03/3-040.jpg'')"
    using resolver_supported_shape [OF a] u by (simp add: p)
  moreover have "strip_capitals ''Lb'' = ''Lb''"
    using resolver_supported_shape [OF b] n by blast
  then have "get_materia_hunter_url ''19-128Lb'' = Some (materia_base @ ''19/19-128Lb.jpg'')"
    using resolver_supported_shape [OF b] by (simp add: p)
  ultimately show ?thesis by simp
qed

text \<open>
  The claim as it is written fails: \<^verbatim>\<open>3-040r\<close> has the shape and a supported set number,
  but its letter is not a capital, and both resolvers keep it in the file name.
\<close>

theorem resolver_lowercase_counterexample:
  "get_materia_hunter_url ''3-040r'' = Some (materia_base @ ''03/3-040r.jpg'')
   \<and> generate_materia_hunter_url ''3-040r'' = Some (materia_base @ ''03/3-040r.jpg'')
   \<and> list_all is_alpha ''r''"
  by code_simp

text \<open>
  Outside the range 1 to 19, or without leading digits and a hyphen, the resolvers of
  fftcg_database_manager.py and update_image_mapping.py return nothing.
\<close>

lemma resolver_none_outside:
  assumes "opus_match card_id = None \<or> (\<exists>g. opus_match card_id = Some g
             \<and> (nat_of_digits g < 1 \<or> 19 < nat_of_digits g))"
  shows "get_materia_hunter_url card_id = None" and "generate_materia_hunter_url card_id = None"
proof -
  show "get_materia_hunter_url card_id = None"
    using assms by (auto simp: get_materia_hunter_url_def Let_def)
  then show "generate_materia_hunter_url card_id = None"
    by (simp add: generate_eq_get)
qed

text \<open>
  Claim C6. The resolver of generate_materia_hunter_mapping.py has no supported range: for
  \<^verbatim>\<open>20-001C\<close> it returns a URL in the directory 20, where the claim and the two other
  resolvers give none; a \<^verbatim>\<open>B-\<close> identifier, which has no leading digits, gets the directory
  boss.
\<close>

theorem resolver_gen_unsupported_set:
  "generate_materia_hunter_url_gen ''20-001C'' = Some (materia_base @ ''20/20-001.jpg'')
   \<and> generate_materia_hunter_url_gen ''B-001'' = Some (materia_base @ ''boss/B-001.jpg'')
   \<and> get_materia_hunter_url ''20-001C'' = None
   \<and> generate_materia_hunter_url ''20-001C'' = None"
  by code_simp

section \<open>Properties of the merge\<close>

lemma dedup_loop_ids:
  "id_c ` set (dedup_loop xs seen acc) = id_c ` set acc \<union> (id_c ` set xs - seen)"
  by (induction xs arbitrary: seen acc) auto

lemma dedup_loop_distinct:
  "distinct (map id_c acc) \<Longrightarrow> id_c ` set acc \<subseteq> seen \<Longrightarrow>
   distinct (map id_c (dedup_loop xs seen acc))"
proof (induction xs arbitrary: seen acc)
  case Nil
  then show ?case by simp
next
  case (Cons x xs)
  show ?case
  proof (cases "id_c x \<in> seen")
    case True
    then show ?thesis using Cons.IH [OF Cons.prems] by simp
  next
    case False
    have "distinct (map id_c (acc @ [x]))" using Cons.prems False by auto
    moreover have "id_c ` set (acc @ [x]) \<subseteq> insert (id_c x) seen" using Cons.prems by auto
    ultimately have "distinct (map id_c (dedup_loop xs (insert (id_c x) seen) (acc @ [x])))"
      by (rule Cons.IH)
    then show ?thesis using False by simp
  qed
qed

lemma dedup_loop_first:
  "c \<in> set (dedup_loop xs seen acc) \<Longrightarrow>
   c \<in> set acc \<or> (id_c c \<notin> seen \<and> find (\<lambda>d. id_c d = id_c c) xs = Some c)"
proof (induction xs arbitrary: seen acc)
  case Nil
  then show ?case by simp
next
  case (Cons x xs)
  show ?case
  proof (cases "id_c x \<in> seen")
    case True
    then have "c \<in> set (dedup_loop xs seen acc)" using Cons.prems by simp
    from Cons.IH [OF this] True show ?thesis by auto
  next
    case False
    then have "c \<in> set (dedup_loop xs (insert (id_c x) seen) (acc @ [x]))"
      using Cons.prems by simp
    from Cons.IH [OF this] False show ?thesis by auto
  qed
qed

lemma find_Some_mem: "find P xs = Some x \<Longrightarrow> x \<in> set xs"
  by (induction xs) (auto split: if_splits)

lemma find_append_left:
  "find P (xs @ ys) = (case find P xs of Some x \<Rightarrow> Some x | None \<Rightarrow> find P ys)"
  by (induction xs) auto

lemma find_left_wins:
  assumes "find (\<lambda>d. id_c d = i) (xs @ ys) = Some c" and "i \<in> id_c ` set xs"
  shows "find (\<lambda>d. id_c d = i) xs = Some c"
proof -
  from assms(2) have "find (\<lambda>d. id_c d = i) xs \<noteq> None"
    by (auto simp: find_None_iff)
  then show ?thesis using assms(1) by (auto simp: find_append_left split: option.splits)
qed

lemma distinct_map_sort_key:
  "distinct (map f (sort_key k xs)) = distinct (map f xs)"
  by (simp add: distinct_map)

text \<open>
  Claim C3. For any existing and newly fetched records, the merged list has no two records
  with the same id; it has every id of the two inputs; each record it keeps is the first
  one with its id in the existing records followed by the new ones, hence the existing one
  when the id occurs there; it is sorted in ascending order of the pair of set and
  cardNumber (the card identifier, also under the key id when the two keys agree); and the
  sort moves nothing else: records with the same pair stay in the order the dedup loop left
  them in.
\<close>

theorem merge_cards_correct:
  "distinct (map id_c (merge_cards existing_cards new_cards))
   \<and> id_c ` set (merge_cards existing_cards new_cards) = id_c ` set (existing_cards @ new_cards)
   \<and> (\<forall>c \<in> set (merge_cards existing_cards new_cards).
         find (\<lambda>d. id_c d = id_c c) (existing_cards @ new_cards) = Some c)
   \<and> (\<forall>c \<in> set (merge_cards existing_cards new_cards).
         id_c c \<in> id_c ` set existing_cards \<longrightarrow>
         find (\<lambda>d. id_c d = id_c c) existing_cards = Some c)
   \<and> sorted (map (\<lambda>c. (set_c c, cardNumber_c c)) (merge_cards existing_cards new_cards))
   \<and> ((\<forall>c \<in> set (existing_cards @ new_cards). cardNumber_c c = id_c c) \<longrightarrow>
        sorted (map (\<lambda>c. (set_c c, id_c c)) (merge_cards existing_cards new_cards)))
   \<and> (\<forall>k. filter (\<lambda>c. (set_c c, cardNumber_c c) = k) (merge_cards existing_cards new_cards)
           = filter (\<lambda>c. (set_c c, cardNumber_c c) = k)
               (dedup_loop (existing_cards @ new_cards) {} []))"
proof -
  let ?all = "existing_cards @ new_cards"
  let ?u = "dedup_loop ?all {} []"
  let ?m = "merge_cards existing_cards new_cards"
  have s: "set ?m = set ?u"
    by (simp add: merge_cards_def sort_cards_def)
  have d: "distinct (map id_c ?m)"
    unfolding merge_cards_def sort_cards_def distinct_map_sort_key
    by (rule dedup_loop_distinct) simp_all
  have i: "id_c ` set ?m = id_c ` set ?all"
    unfolding s dedup_loop_ids by simp
  have f: "find (\<lambda>d. id_c d = id_c c) ?all = Some c" if "c \<in> set ?m" for c
    using dedup_loop_first [of c ?all "{}" "[]"] that unfolding s by simp
  have e: "find (\<lambda>d. id_c d = id_c c) existing_cards = Some c"
    if "c \<in> set ?m" "id_c c \<in> id_c ` set existing_cards" for c
    using find_left_wins [OF f [OF that(1)] that(2)] .
  have o: "sorted (map (\<lambda>c. (set_c c, cardNumber_c c)) ?m)"
    by (simp add: merge_cards_def sort_cards_def)
  have o': "sorted (map (\<lambda>c. (set_c c, id_c c)) ?m)"
    if "\<forall>c \<in> set ?all. cardNumber_c c = id_c c"
  proof -
    have "c \<in> set ?all" if "c \<in> set ?m" for c
      using f [OF that] by (rule find_Some_mem)
    then have "set ?m \<subseteq> set ?all" by blast
    then have eq: "map (\<lambda>c. (set_c c, id_c c)) ?m = map (\<lambda>c. (set_c c, cardNumber_c c)) ?m"
      using that by (intro map_cong) auto
    show ?thesis unfolding eq by (rule o)
  qed
  have t: "filter (\<lambda>c. (set_c c, cardNumber_c c) = k) ?m
           = filter (\<lambda>c. (set_c c, cardNumber_c c) = k) ?u" for k
    unfolding merge_cards_def sort_cards_def by (rule sort_key_stable)
  show ?thesis using d i f e o o' t by blast
qed

theorem merge_cards_correct_witness:
  "merge_cards [auron] [auron_reprint, lenna] = [lenna, auron]
   \<and> id_c auron_reprint = id_c auron \<and> auron_reprint \<noteq> auron
   \<and> find (\<lambda>d. id_c d = id_c auron) [auron] = Some auron"
proof -
  have r: "merge_cards [auron] [auron_reprint, lenna] = [lenna, auron]" by code_simp
  have n: "id_c auron_reprint = id_c auron \<and> auron_reprint \<noteq> auron"
    by (simp add: auron_def auron_reprint_def)
  have m: "auron \<in> set (merge_cards [auron] [auron_reprint, lenna])" by (simp add: r)
  have "find (\<lambda>d. id_c d = id_c auron) [auron] = Some auron"
    using merge_cards_correct [of "[auron]" "[auron_reprint, lenna]"] m by simp
  then show ?thesis using r n by simp
qed

text \<open>
  The merge is the only write of \<^const>\<open>fetch_missing_sets\<close>, so the card file it leaves has
  distinct ids whenever it writes.
\<close>

lemma fetch_missing_sets_distinct:
  assumes "cards_file fs = Some existing_cards" and "concat (map fetched missing_sets) \<noteq> []"
  shows "\<exists>cards. cards_file (fetch_missing_sets fetched missing_sets fs) = Some cards
           \<and> distinct (map id_c cards)"
proof -
  have "distinct (map id_c (merge_cards existing_cards (concat (map fetched missing_sets))))"
    unfolding merge_cards_def sort_cards_def distinct_map_sort_key
    by (rule dedup_loop_distinct) simp_all
  then show ?thesis using assms by (simp add: fetch_missing_sets_def Let_def)
qed

text \<open>
  Claim C2. \<^const>\<open>fetch_all_sets\<close> has no dedup pass: when the API lists the card
  \<^verbatim>\<open>1-001H\<close> under two of the sets, the card file it writes holds two records with that id.
\<close>

theorem fetch_all_sets_duplicate_ids:
  "cards_file (fetch_all_sets reprint_fetched ALL_SETS \<lparr>cards_file = None, mapping_file = None\<rparr>)
     = Some [auron_reprint, auron]
   \<and> map id_c [auron_reprint, auron] = [''1-001H'', ''1-001H'']
   \<and> \<not> distinct (map id_c [auron_reprint, auron])"
  by code_simp

section \<open>Properties of the image mapping\<close>

lemma image_step_entry_for:
  "image_step resolver existing_mapping new_mappings c =
     (case entry_for resolver existing_mapping c of
        None \<Rightarrow> new_mappings
      | Some entry \<Rightarrow> AList.update (id_c c) entry new_mappings)"
  by (auto simp: image_step_def entry_for_def Let_def keeps_existing_def split: option.splits)

lemma map_of_image_step:
  "map_of (image_step resolver existing_mapping new_mappings c) k =
     (if id_c c = k
      then (case entry_for resolver existing_mapping c of
              None \<Rightarrow> map_of new_mappings k
            | Some entry \<Rightarrow> Some entry)
      else map_of new_mappings k)"
  by (simp add: image_step_entry_for update_conv' split: option.splits)

lemma foldl_image_step_other:
  "k \<notin> id_c ` set cards \<Longrightarrow>
   map_of (foldl (image_step resolver existing_mapping) acc cards) k = map_of acc k"
  by (induction cards arbitrary: acc) (auto simp: map_of_image_step)

lemma image_loop_keys:
  "fst ` set (image_loop resolver existing_mapping cards) \<subseteq> id_c ` set cards"
proof
  fix k assume "k \<in> fst ` set (image_loop resolver existing_mapping cards)"
  then have "map_of (image_loop resolver existing_mapping cards) k \<noteq> None"
    by (simp add: map_of_eq_None_iff)
  then have "map_of (foldl (image_step resolver existing_mapping) [] cards) k \<noteq> map_of [] k"
    by (simp add: image_loop_def)
  then show "k \<in> id_c ` set cards"
    using foldl_image_step_other by blast
qed

text \<open>
  The entry under an id after the loop is the one written by the last card with that id that
  writes anything.
\<close>

lemma foldl_image_step_last:
  "map_of (foldl (image_step resolver existing_mapping) acc cards) i =
     (if filter (\<lambda>c. id_c c = i \<and> entry_for resolver existing_mapping c \<noteq> None) cards = []
      then map_of acc i
      else entry_for resolver existing_mapping
             (last (filter (\<lambda>c. id_c c = i \<and> entry_for resolver existing_mapping c \<noteq> None)
                cards)))"
proof (induction cards arbitrary: acc)
  case Nil
  then show ?case by simp
next
  case (Cons x xs)
  let ?P = "\<lambda>c. id_c c = i \<and> entry_for resolver existing_mapping c \<noteq> None"
  note IH = Cons.IH [of "image_step resolver existing_mapping acc x"]
  show ?case
  proof (cases "?P x")
    case False
    then have "map_of (image_step resolver existing_mapping acc x) i = map_of acc i"
      by (auto simp: map_of_image_step)
    moreover have "filter ?P (x # xs) = filter ?P xs" using False by simp
    ultimately show ?thesis using IH by (simp only: foldl_Cons)
  next
    case True
    then obtain v where v: "entry_for resolver existing_mapping x = Some v" by auto
    then have s: "map_of (image_step resolver existing_mapping acc x) i = Some v"
      using True by (simp add: map_of_image_step)
    have c: "filter ?P (x # xs) = x # filter ?P xs" using True by simp
    show ?thesis
    proof (cases "filter ?P xs = []")
      case True
      then show ?thesis using IH s v unfolding c by simp
    next
      case False
      then show ?thesis using IH unfolding c by simp
    qed
  qed
qed

lemma image_loop_last:
  "map_of (image_loop resolver existing_mapping cards) i =
     (if filter (\<lambda>c. id_c c = i \<and> entry_for resolver existing_mapping c \<noteq> None) cards = []
      then None
      else entry_for resolver existing_mapping
             (last (filter (\<lambda>c. id_c c = i \<and> entry_for resolver existing_mapping c \<noteq> None)
                cards)))"
  unfolding image_loop_def foldl_image_step_last by simp

lemma last_filter_holds: "filter P xs \<noteq> [] \<Longrightarrow> P (last (filter P xs)) \<and> last (filter P xs) \<in> set xs"
proof -
  assume "filter P xs \<noteq> []"
  then have "last (filter P xs) \<in> set (filter P xs)" by (rule last_in_set)
  then show ?thesis by simp
qed

text \<open>
  Claim C4, as the code has it. Let \<open>i\<close> be the id of some card of the collection. In the
  mapping that the loop of fftcg_database_manager.py writes (the loop of
  update_image_mapping.py writes the same mapping): an existing entry for \<open>i\<close> whose source
  is materia-hunter is kept as it is; otherwise, when the resolver gives a URL for \<open>i\<close>, the
  entry has that URL, the source materia-hunter and the name of the last record with the id;
  otherwise, when some record with the id has the key image, the entry has the value under
  that key, whatever it is, the source square-enix and the name of the last such record;
  and \<open>i\<close> is not a key of the mapping only when no record with the id has the key image.
\<close>

theorem image_mapping_precedence:
  assumes "i \<in> id_c ` set cards"
  shows
    "(keeps_existing existing_mapping i \<longrightarrow>
        map_of (image_loop get_materia_hunter_url existing_mapping cards) i
          = map_of existing_mapping i
        \<and> map_of existing_mapping i \<noteq> None)
     \<and> (\<forall>url. \<not> keeps_existing existing_mapping i
           \<and> get_materia_hunter_url i = Some url \<longrightarrow>
        map_of (image_loop get_materia_hunter_url existing_mapping cards) i
          = Some [(''name'', JStr (name_c (last (filter (\<lambda>c. id_c c = i) cards)))),
                  (''image'', JStr url), (''source'', JStr ''materia-hunter'')])
     \<and> (\<forall>w img. \<not> keeps_existing existing_mapping i
           \<and> get_materia_hunter_url i = None
           \<and> filter (\<lambda>c. id_c c = i \<and> image_c c \<noteq> None) cards \<noteq> []
           \<and> w = last (filter (\<lambda>c. id_c c = i \<and> image_c c \<noteq> None) cards)
           \<and> image_c w = Some img \<longrightarrow>
        map_of (image_loop get_materia_hunter_url existing_mapping cards) i
          = Some [(''name'', JStr (name_c w)), (''image'', img), (''source'', JStr ''square-enix'')])
     \<and> (\<not> keeps_existing existing_mapping i
           \<and> get_materia_hunter_url i = None
           \<and> (\<forall>c \<in> set cards. id_c c = i \<longrightarrow> image_c c = None) \<longrightarrow>
        i \<notin> fst ` set (image_loop get_materia_hunter_url existing_mapping cards))
     \<and> image_loop generate_materia_hunter_url existing_mapping cards
          = image_loop get_materia_hunter_url existing_mapping cards"
proof -
  let ?r = "image_loop get_materia_hunter_url existing_mapping cards"
  let ?E = "entry_for get_materia_hunter_url existing_mapping"
  let ?I = "filter (\<lambda>c. id_c c = i) cards"
  let ?W = "filter (\<lambda>c. id_c c = i \<and> image_c c \<noteq> None) cards"
  have ne: "?I \<noteq> []" using assms by (auto simp: filter_empty_conv)
  have g: "generate_materia_hunter_url = get_materia_hunter_url"
    by (rule ext) (rule generate_eq_get)
  have k: "map_of ?r i = map_of existing_mapping i \<and> map_of existing_mapping i \<noteq> None"
    if keeps: "keeps_existing existing_mapping i"
  proof -
    have ex: "map_of existing_mapping i \<noteq> None"
      using keeps by (auto simp: keeps_existing_def split: option.splits)
    have e: "?E c = map_of existing_mapping i" if "id_c c = i" for c
      using that keeps by (simp add: entry_for_def)
    have "filter (\<lambda>c. id_c c = i \<and> ?E c \<noteq> None) cards = ?I"
      using e ex by (intro filter_cong) auto
    moreover have "id_c (last ?I) = i" using last_filter_holds [OF ne] by simp
    ultimately have "map_of ?r i = map_of existing_mapping i"
      using e ne by (simp add: image_loop_last)
    then show ?thesis using ex by simp
  qed
  have m: "map_of ?r i = Some [(''name'', JStr (name_c (last ?I))), (''image'', JStr url),
                               (''source'', JStr ''materia-hunter'')]"
    if nk: "\<not> keeps_existing existing_mapping i" and u: "get_materia_hunter_url i = Some url"
    for url
  proof -
    have e: "?E c = Some [(''name'', JStr (name_c c)), (''image'', JStr url),
                          (''source'', JStr ''materia-hunter'')]" if "id_c c = i" for c
      using that nk u by (simp add: entry_for_def)
    have "filter (\<lambda>c. id_c c = i \<and> ?E c \<noteq> None) cards = ?I"
      using e by (intro filter_cong) auto
    moreover have "id_c (last ?I) = i" using last_filter_holds [OF ne] by simp
    ultimately show ?thesis using e ne by (simp add: image_loop_last)
  qed
  have f: "filter (\<lambda>c. id_c c = i \<and> ?E c \<noteq> None) cards = ?W"
    if nk: "\<not> keeps_existing existing_mapping i" and u: "get_materia_hunter_url i = None"
    using that by (intro filter_cong) (auto simp: entry_for_def split: option.splits)
  have q: "map_of ?r i = Some [(''name'', JStr (name_c w)), (''image'', img),
                               (''source'', JStr ''square-enix'')]"
    if nk: "\<not> keeps_existing existing_mapping i" and u: "get_materia_hunter_url i = None"
      and wn: "?W \<noteq> []" and w: "w = last ?W" and im: "image_c w = Some img"
    for w img
  proof -
    have iw: "id_c w = i" using last_filter_holds [OF wn] w by simp
    have "?E w = Some [(''name'', JStr (name_c w)), (''image'', img),
                       (''source'', JStr ''square-enix'')]"
      using iw nk u im by (simp add: entry_for_def)
    then show ?thesis using w wn unfolding image_loop_last f [OF nk u] by simp
  qed
  have n: "i \<notin> fst ` set ?r"
    if nk: "\<not> keeps_existing existing_mapping i" and u: "get_materia_hunter_url i = None"
      and no: "\<forall>c \<in> set cards. id_c c = i \<longrightarrow> image_c c = None"
  proof -
    have "?W = []" using no by (auto simp: filter_empty_conv)
    then have "map_of ?r i = None" unfolding image_loop_last f [OF nk u] by simp
    then show ?thesis by (simp add: map_of_eq_None_iff)
  qed
  show ?thesis unfolding g using k m q n by blast
qed

theorem image_mapping_precedence_witness:
  "map_of (image_loop get_materia_hunter_url sample_mapping sample_cards) ''1-001H''
     = Some [(''name'', JStr ''Auron''), (''image'', JStr ''https://example.org/auron.jpg''),
             (''source'', JStr ''materia-hunter'')]
   \<and> map_of (image_loop get_materia_hunter_url sample_mapping sample_cards) ''2-005R''
     = Some [(''name'', JStr ''Ifrit (foil)''), (''image'', JStr (materia_base @ ''02/2-005.jpg'')),
             (''source'', JStr ''materia-hunter'')]
   \<and> map_of (image_loop get_materia_hunter_url sample_mapping sample_cards) ''20-001C''
     = Some [(''name'', JStr ''Lenna''),
             (''image'', JStr ''https://fftcg.cdn.sewest.net/images/cards/full/20-001C_eg.jpg''),
             (''source'', JStr ''square-enix'')]
   \<and> map_of (image_loop get_materia_hunter_url sample_mapping sample_cards) ''21-010H''
     = Some [(''name'', JStr ''Yuna''),
             (''image'', JStr ''https://fftcg.cdn.sewest.net/images/cards/full/21-010H_eg.jpg''),
             (''source'', JStr ''square-enix'')]
   \<and> ''PR-001'' \<notin> fst ` set (image_loop get_materia_hunter_url sample_mapping sample_cards)"
proof -
  have in1: "''1-001H'' \<in> id_c ` set sample_cards" and in2: "''2-005R'' \<in> id_c ` set sample_cards"
    and in3: "''20-001C'' \<in> id_c ` set sample_cards" and in4: "''21-010H'' \<in> id_c ` set sample_cards"
    and in5: "''PR-001'' \<in> id_c ` set sample_cards"
    by code_simp+
  have k1: "keeps_existing sample_mapping ''1-001H''"
    and e1: "map_of sample_mapping ''1-001H''
               = Some [(''name'', JStr ''Auron''), (''image'', JStr ''https://example.org/auron.jpg''),
                       (''source'', JStr ''materia-hunter'')]"
    and k2: "\<not> keeps_existing sample_mapping ''2-005R''"
    and r2: "get_materia_hunter_url ''2-005R'' = Some (materia_base @ ''02/2-005.jpg'')"
    and n2: "name_c (last (filter (\<lambda>c. id_c c = ''2-005R'') sample_cards)) = ''Ifrit (foil)''"
    and k3: "\<not> keeps_existing sample_mapping ''20-001C''"
    and r3: "get_materia_hunter_url ''20-001C'' = None"
    and w3: "filter (\<lambda>c. id_c c = ''20-001C'' \<and> image_c c \<noteq> None) sample_cards = [lenna]"
    and i3: "image_c lenna = Some (JStr ''https://fftcg.cdn.sewest.net/images/cards/full/20-001C_eg.jpg'')"
    and n3: "name_c lenna = ''Lenna''"
    and k4: "\<not> keeps_existing sample_mapping ''21-010H''"
    and r4: "get_materia_hunter_url ''21-010H'' = None"
    and w4: "filter (\<lambda>c. id_c c = ''21-010H'' \<and> image_c c \<noteq> None) sample_cards = [yuna]"
    and i4: "image_c yuna = Some (JStr ''https://fftcg.cdn.sewest.net/images/cards/full/21-010H_eg.jpg'')"
    and n4: "name_c yuna = ''Yuna''"
    and k5: "\<not> keeps_existing sample_mapping ''PR-001''"
    and r5: "get_materia_hunter_url ''PR-001'' = None"
    and w5: "list_all (\<lambda>c. id_c c \<noteq> ''PR-001'' \<or> image_c c = None) sample_cards"
    by code_simp+
  have a5: "\<forall>c \<in> set sample_cards. id_c c = ''PR-001'' \<longrightarrow> image_c c = None"
    using w5 by (auto simp: list_all_iff)
  note t1 = image_mapping_precedence [OF in1, of sample_mapping]
  note t2 = image_mapping_precedence [OF in2, of sample_mapping]
  note t3 = image_mapping_precedence [OF in3, of sample_mapping]
  note t4 = image_mapping_precedence [OF in4, of sample_mapping]
  note t5 = image_mapping_precedence [OF in5, of sample_mapping]
  have g1: "map_of (image_loop get_materia_hunter_url sample_mapping sample_cards) ''1-001H''
     = Some [(''name'', JStr ''Auron''), (''image'', JStr ''https://example.org/auron.jpg''),
             (''source'', JStr ''materia-hunter'')]"
    using t1 k1 e1 by simp
  have g2: "map_of (image_loop get_materia_hunter_url sample_mapping sample_cards) ''2-005R''
     = Some [(''name'', JStr ''Ifrit (foil)''), (''image'', JStr (materia_base @ ''02/2-005.jpg'')),
             (''source'', JStr ''materia-hunter'')]"
    using t2 k2 r2 n2 by simp
  have g3: "map_of (image_loop get_materia_hunter_url sample_mapping sample_cards) ''20-001C''
     = Some [(''name'', JStr ''Lenna''),
             (''image'', JStr ''https://fftcg.cdn.sewest.net/images/cards/full/20-001C_eg.jpg''),
             (''source'', JStr ''square-enix'')]"
    using t3 k3 r3 w3 i3 n3 by simp
  have g4: "map_of (image_loop get_materia_hunter_url sample_mapping sample_cards) ''21-010H''
     = Some [(''name'', JStr ''Yuna''),
             (''image'', JStr ''https://fftcg.cdn.sewest.net/images/cards/full/21-010H_eg.jpg''),
             (''source'', JStr ''square-enix'')]"
    using t4 k4 r4 w4 i4 n4 by simp
  have g5: "''PR-001'' \<notin> fst ` set (image_loop get_materia_hunter_url sample_mapping sample_cards)"
    using t5 k5 r5 a5 by simp
  show ?thesis using g1 g2 g3 g4 g5 by simp
qed

text \<open>
  The claim as it is written fails: for a card that has the key image with the value
  \<^verbatim>\<open>null\<close>, and an id for which the resolver has no URL, no URL can be derived, yet the id is
  not omitted: an entry with the image \<^verbatim>\<open>null\<close> is written.
\<close>

theorem image_mapping_null_image_counterexample:
  "get_materia_hunter_url (id_c tifa) = None
   \<and> image_c tifa = Some JNull
   \<and> image_loop get_materia_hunter_url [] [tifa]
       = [(''PR-002'', [(''name'', JStr ''Tifa''), (''image'', JNull), (''source'', JStr ''square-enix'')])]
   \<and> image_loop generate_materia_hunter_url [] [tifa]
       = [(''PR-002'', [(''name'', JStr ''Tifa''), (''image'', JNull), (''source'', JStr ''square-enix'')])]"
  by code_simp

text \<open>
  Claim C10. When the card file is there, both update runs write a mapping whose keys are
  ids of cards of that file; an id that no card has is not a key of it, whatever the old
  mapping held under it.
\<close>

theorem image_mapping_keys:
  assumes "cards_file fs = Some cards"
  shows "\<exists>m. update_image_mappings fs = Inr (fs\<lparr>mapping_file := Some m\<rparr>)
             \<and> update_image_mapping_main fs = Inr (fs\<lparr>mapping_file := Some m\<rparr>)
             \<and> fst ` set m \<subseteq> id_c ` set cards
             \<and> (\<forall>k. k \<notin> id_c ` set cards \<longrightarrow> map_of m k = None)"
proof -
  let ?e = "case mapping_file fs of None \<Rightarrow> [] | Some m \<Rightarrow> m"
  let ?m = "image_loop get_materia_hunter_url ?e cards"
  have g: "generate_materia_hunter_url = get_materia_hunter_url"
    by (rule ext) (rule generate_eq_get)
  have w: "update_image_mappings fs = Inr (fs\<lparr>mapping_file := Some ?m\<rparr>)"
    "update_image_mapping_main fs = Inr (fs\<lparr>mapping_file := Some ?m\<rparr>)"
    using assms
    by (simp_all add: update_image_mappings_def update_image_mapping_main_def update_images_def g)
  have s: "fst ` set ?m \<subseteq> id_c ` set cards" by (rule image_loop_keys)
  then have "map_of ?m k = None" if "k \<notin> id_c ` set cards" for k
    using that by (auto simp: map_of_eq_None_iff)
  then show ?thesis using w s by blast
qed

theorem image_mapping_keys_witness:
  "update_image_mappings \<lparr>cards_file = Some [ifrit], mapping_file = Some sample_mapping\<rparr>
     = Inr \<lparr>cards_file = Some [ifrit],
            mapping_file = Some [(''2-005R'', [(''name'', JStr ''Ifrit''), (''image'', JStr (materia_base @ ''02/2-005.jpg'')), (''source'', JStr ''materia-hunter'')])]\<rparr>
   \<and> map_of sample_mapping ''9-999L''
     = Some [(''name'', JStr ''Gone''), (''image'', JStr ''https://example.org/gone.jpg''), (''source'', JStr ''materia-hunter'')]"
proof -
  have c: "cards_file \<lparr>cards_file = Some [ifrit], mapping_file = Some sample_mapping\<rparr> = Some [ifrit]"
    by simp
  have r: "update_image_mappings \<lparr>cards_file = Some [ifrit], mapping_file = Some sample_mapping\<rparr>
     = Inr \<lparr>cards_file = Some [ifrit],
            mapping_file = Some [(''2-005R'', [(''name'', JStr ''Ifrit''), (''image'', JStr (materia_base @ ''02/2-005.jpg'')), (''source'', JStr ''materia-hunter'')])]\<rparr>"
    by code_simp
  have o: "map_of sample_mapping ''9-999L''
     = Some [(''name'', JStr ''Gone''), (''image'', JStr ''https://example.org/gone.jpg''), (''source'', JStr ''materia-hunter'')]"
    by code_simp
  show ?thesis using image_mapping_keys [OF c] r o by simp
qed

section \<open>Missing files\<close>

text \<open>
  Claim C9, as the code has it. Without the card file, the fetch of missing sets writes
  nothing and both image runs end in the exception of \<^verbatim>\<open>open\<close>. Without the mapping file
  but with the card file, the image runs go on from the empty mapping and write the result.
\<close>

theorem missing_files:
  "(cards_file fs = None \<longrightarrow>
      fetch_missing_sets fetched missing_sets fs = fs
      \<and> update_image_mappings fs = Inl FileNotFoundError
      \<and> update_image_mapping_main fs = Inl FileNotFoundError)
   \<and> (\<forall>cards. cards_file fs = Some cards \<and> mapping_file fs = None \<longrightarrow>
      update_image_mappings fs
        = Inr (fs\<lparr>mapping_file := Some (image_loop get_materia_hunter_url [] cards)\<rparr>)
      \<and> update_image_mapping_main fs
        = Inr (fs\<lparr>mapping_file := Some (image_loop generate_materia_hunter_url [] cards)\<rparr>))"
  by (simp add: fetch_missing_sets_def update_image_mappings_def update_image_mapping_main_def
      update_images_def)

theorem missing_files_witness:
  "fetch_missing_sets reprint_fetched ALL_SETS \<lparr>cards_file = None, mapping_file = None\<rparr>
     = \<lparr>cards_file = None, mapping_file = None\<rparr>
   \<and> update_image_mappings \<lparr>cards_file = None, mapping_file = None\<rparr> = Inl FileNotFoundError
   \<and> update_image_mappings \<lparr>cards_file = Some [lenna], mapping_file = None\<rparr>
     = Inr \<lparr>cards_file = Some [lenna],
            mapping_file = Some (image_loop get_materia_hunter_url [] [lenna])\<rparr>"
proof -
  have a: "cards_file \<lparr>cards_file = None, mapping_file = None\<rparr> = None" by simp
  have b: "cards_file \<lparr>cards_file = Some [lenna], mapping_file = None\<rparr> = Some [lenna]
           \<and> mapping_file \<lparr>cards_file = Some [lenna], mapping_file = None\<rparr> = None" by simp
  show ?thesis
    using missing_files [of "\<lparr>cards_file = None, mapping_file = None\<rparr>" reprint_fetched ALL_SETS]
      missing_files [of "\<lparr>cards_file = Some [lenna], mapping_file = None\<rparr>"] a b
    by simp
qed

text \<open>
  The claim as it is written fails for the image mapping: with the card file of one card and
  no mapping file, the run does not abort but writes a mapping file with one entry.
\<close>

theorem missing_mapping_file_counterexample:
  "update_image_mappings \<lparr>cards_file = Some [lenna], mapping_file = None\<rparr>
     = Inr \<lparr>cards_file = Some [lenna],
            mapping_file = Some [(''20-001C'',
              [(''name'', JStr ''Lenna''),
               (''image'', JStr ''https://fftcg.cdn.sewest.net/images/cards/full/20-001C_eg.jpg''),
               (''source'', JStr ''square-enix'')])]\<rparr>"
  by code_simp

section \<open>Properties of the field normalizer\<close>

lemma element_mapping_ok:
  "(\<exists>v. element_mapping x = Inr v) \<longleftrightarrow> (if truthy x then is_str x else True)"
  by (cases x) (auto simp: element_mapping_def is_str_def)

lemma card_element_ok:
  "(\<exists>v. card_element card_data = Inr v)
     \<longleftrightarrow> element_readable (dict_get card_data ''element'' JNull)"
proof (cases "dict_get card_data ''element'' JNull")
  case (JStr s)
  then show ?thesis
    by (auto simp: card_element_def element_readable_def Let_def element_mapping_def
        first_code_point_def split: list.splits)
next
  case (JList xs)
  then show ?thesis
    using element_mapping_ok
    by (cases xs) (auto simp: card_element_def element_readable_def Let_def)
qed (auto simp: card_element_def element_readable_def Let_def)

lemma type_mapping_ok:
  "(\<exists>v. type_mapping x = Inr v) \<longleftrightarrow> type_readable x"
  by (cases x) (auto simp: type_mapping_def type_readable_def is_str_def)

lemma map_of_key_iff: "k \<in> fst ` set kvs \<longleftrightarrow> map_of kvs k \<noteq> None"
  by (simp add: map_of_eq_None_iff)

lemma card_image_ok:
  "(\<exists>v. card_image card_data = Inr v) \<longleftrightarrow> images_readable (map_of card_data ''images'')"
proof (cases "map_of card_data ''images''")
  case None
  then show ?thesis by (simp add: card_image_def images_readable_def)
next
  case (Some im)
  show ?thesis
  proof (cases im)
    case (JObj d)
    show ?thesis
    proof (cases "map_of d ''full''")
      case None
      then show ?thesis using Some JObj
        by (simp add: card_image_def images_readable_def map_of_key_iff)
    next
      case (Some full)
      then show ?thesis using \<open>map_of card_data ''images'' = Some im\<close> JObj
        by (cases full; cases "truthy full")
          (auto simp: card_image_def images_readable_def map_of_key_iff split: list.splits)
    qed
  qed (use Some in \<open>auto simp: card_image_def images_readable_def\<close>)
qed

lemma convert_card_ok:
  "(\<exists>c. convert_card card_data set_name = Inr c) \<longleftrightarrow> readable card_data"
proof -
  have "(\<exists>c. convert_card card_data set_name = Inr c)
        \<longleftrightarrow> (\<exists>v. card_element card_data = Inr v)
          \<and> (\<exists>v. type_mapping (dict_get card_data ''type_en'' (JStr '''')) = Inr v)
          \<and> (\<exists>v. card_image card_data = Inr v)"
    by (auto simp: convert_card_def Let_def split: sum.splits option.splits)
  then show ?thesis
    by (simp only: card_element_ok type_mapping_ok card_image_ok readable_def)
qed

lemma convert_cards_length:
  "length (convert_cards raw set_name) = length (filter readable raw)"
proof (induction raw)
  case Nil
  then show ?case by simp
next
  case (Cons r raw)
  show ?case
  proof (cases "convert_card r set_name")
    case (Inl e)
    then have "\<not> readable r" using convert_card_ok [of r set_name] by auto
    then show ?thesis using Inl Cons.IH by simp
  next
    case (Inr c)
    then have "readable r" using convert_card_ok [of r set_name] by auto
    then show ?thesis using Inr Cons.IH by simp
  qed
qed

text \<open>
  Claim C1, as the code has it. The loop of \<^verbatim>\<open>fetch_set_data\<close> in fftcg_database_manager.py
  (fetch_missing_sets.py has the same loop) lets no exception out: a raw record whose
  element, type and images can be read gives one record, any other record raises inside
  the loop body and is left out, so that the result has one record for each readable raw
  record.
\<close>

theorem convert_card_readable:
  "(readable card_data \<longrightarrow>
      (\<exists>c. convert_card card_data set_name = Inr c
           \<and> fetch_set_data (Cards [card_data]) set_name = [c]))
   \<and> (\<not> readable card_data \<longrightarrow>
      (\<exists>e. convert_card card_data set_name = Inl e)
      \<and> fetch_set_data (Cards [card_data]) set_name = [])
   \<and> length (fetch_set_data (Cards raw) set_name) = length (filter readable raw)"
proof -
  have a: "\<exists>c. convert_card card_data set_name = Inr c
           \<and> fetch_set_data (Cards [card_data]) set_name = [c]" if r: "readable card_data"
  proof -
    obtain c where "convert_card card_data set_name = Inr c"
      using r convert_card_ok [of card_data set_name] by blast
    then show ?thesis by (simp add: fetch_set_data_def)
  qed
  have b: "(\<exists>e. convert_card card_data set_name = Inl e)
           \<and> fetch_set_data (Cards [card_data]) set_name = []" if n: "\<not> readable card_data"
  proof -
    have "\<forall>c. convert_card card_data set_name \<noteq> Inr c"
      using n convert_card_ok [of card_data set_name] by blast
    then obtain e where "convert_card card_data set_name = Inl e"
      by (cases "convert_card card_data set_name") auto
    then show ?thesis by (simp add: fetch_set_data_def)
  qed
  have c: "length (fetch_set_data (Cards raw) set_name) = length (filter readable raw)"
    by (simp add: fetch_set_data_def convert_cards_length)
  show ?thesis using a b c by blast
qed

theorem convert_card_readable_witness:
  "fetch_set_data (Cards [raw_auron]) ''Opus I''
     = [[(''id'', JStr ''1-001H''), (''name'', JStr ''Auron''), (''element'', JStr ''fire''),
         (''type'', JStr ''forward''), (''cost'', JNum 6), (''power'', JNum 9000),
         (''job'', JStr ''Guardian''), (''category'', JStr ''X''), (''rarity'', JStr ''H''),
         (''text'', JStr ''Brave''), (''set'', JStr ''Opus I''), (''cardNumber'', JStr ''1-001H''),
         (''hasRealImage'', JBool True), (''source'', JStr ''square-api''),
         (''image'', JStr ''https://fftcg.cdn.sewest.net/images/cards/full/1-001H_eg.jpg'')]]
   \<and> readable raw_auron
   \<and> fetch_set_data (Cards [raw_null_images]) ''Opus I'' = []
   \<and> \<not> readable raw_null_images
   \<and> length (fetch_set_data (Cards [raw_auron, raw_null_images]) ''Opus I'') = 1"
proof -
  have r: "readable raw_auron" and n: "\<not> readable raw_null_images" by code_simp+
  have f: "fetch_set_data (Cards [raw_auron]) ''Opus I''
     = [[(''id'', JStr ''1-001H''), (''name'', JStr ''Auron''), (''element'', JStr ''fire''),
         (''type'', JStr ''forward''), (''cost'', JNum 6), (''power'', JNum 9000),
         (''job'', JStr ''Guardian''), (''category'', JStr ''X''), (''rarity'', JStr ''H''),
         (''text'', JStr ''Brave''), (''set'', JStr ''Opus I''), (''cardNumber'', JStr ''1-001H''),
         (''hasRealImage'', JBool True), (''source'', JStr ''square-api''),
         (''image'', JStr ''https://fftcg.cdn.sewest.net/images/cards/full/1-001H_eg.jpg'')]]"
    by code_simp
  have e: "fetch_set_data (Cards [raw_null_images]) ''Opus I'' = []"
    using convert_card_readable [of raw_null_images "''Opus I''" "[]"] n by simp
  have l: "length (fetch_set_data (Cards [raw_auron, raw_null_images]) ''Opus I'') = 1"
    using convert_card_readable [of raw_auron "''Opus I''" "[raw_auron, raw_null_images]"] r n
    by simp
  show ?thesis using r n f e l by simp
qed

text \<open>
  The claim as it is written fails: a record whose images are \<^verbatim>\<open>null\<close> raises in the loop
  body, at \<^verbatim>\<open>"full" in card_data["images"]\<close>, and no record is made of it.
\<close>

theorem convert_card_counterexample:
  "convert_card raw_null_images ''Opus I'' = Inl TypeError
   \<and> fetch_set_data (Cards [raw_null_images]) ''Opus I'' = []"
  by code_simp

text \<open>
  \<^verbatim>\<open>convert_to_app_format\<close> of extract_all_cards.py has no handler at all around its
  conversions: a cost that is not a number ends it with the exception of \<^verbatim>\<open>int\<close>.
\<close>

lemma convert_to_app_format_raises:
  "convert_to_app_format loads [(''code'', JStr ''1-001H''), (''cost'', JStr ''abc'')] set_name
     = Inl ValueError"
  by (simp add: convert_to_app_format_def app_element_def app_type_def dict_get_def
      int_of_str_def is_space_def is_digit_def less_eq_char_def)

subsection \<open>Cost and power\<close>

lemma digit_not_space: "is_digit c \<Longrightarrow> \<not> is_space c"
  by (auto simp: is_digit_def is_space_def less_eq_char_def)

lemma digit_not_sign: "is_digit c \<Longrightarrow> c \<noteq> CHR ''-'' \<and> c \<noteq> CHR ''+'' \<and> c \<noteq> CHR ''_''"
  by (auto simp: is_digit_def less_eq_char_def)

lemma int_body_ok_digits: "s \<noteq> [] \<Longrightarrow> list_all is_digit s \<Longrightarrow> int_body_ok s"
  by (induction s rule: int_body_ok.induct) (auto simp: digit_not_sign)

lemma strip_digits:
  assumes "s \<noteq> []" "list_all is_digit s"
  shows "rev (dropWhile is_space (rev (dropWhile is_space s))) = s"
proof -
  obtain c r where s: "s = c # r" using assms(1) by (cases s) auto
  then have "\<not> is_space c" using assms(2) by (simp add: digit_not_space)
  then have a: "dropWhile is_space s = s" using s by simp
  obtain r' c' where s': "s = r' @ [c']" using assms(1) by (cases s rule: rev_cases) auto
  then have "\<not> is_space c'" using assms(2) by (simp add: digit_not_space)
  then have "dropWhile is_space (rev s) = rev s" using s' by simp
  then show ?thesis using a by simp
qed

lemma int_of_str_digits:
  assumes "isdigit s"
  shows "int_of_str s = Inr (int (nat_of_digits s))"
proof -
  have ne: "s \<noteq> []" and ds: "list_all is_digit s" using assms by (simp_all add: isdigit_def)
  obtain c r where s: "s = c # r" using ne by (cases s) auto
  then have c: "c \<noteq> CHR ''-''" "c \<noteq> CHR ''+''" using ds by (simp_all add: digit_not_sign)
  have f: "filter (\<lambda>c. c \<noteq> CHR ''_'') s = s"
    using ds by (auto simp: list_all_iff digit_not_sign intro!: filter_True)
  show ?thesis
    unfolding int_of_str_def strip_digits [OF ne ds]
    using c int_body_ok_digits [OF ne ds] f by (simp add: s Let_def)
qed

lemma digit_char_is_digit: "d < 10 \<Longrightarrow> is_digit (digit_char d)"
proof -
  assume "d < 10"
  then have "d \<in> {0,1,2,3,4,5,6,7,8,9}" by auto
  then show ?thesis
    by (auto simp: is_digit_def digit_char_def less_eq_char_def)
qed

lemma digits10_digits: "list_all is_digit (digits10 n) \<and> digits10 n \<noteq> []"
proof (induction n rule: digits10.induct)
  case (1 n)
  show ?case
  proof (cases "n < 10")
    case True
    then show ?thesis by (subst (1 2) digits10.simps) (simp add: digit_char_is_digit)
  next
    case False
    then show ?thesis using 1
      by (subst (1 2) digits10.simps) (simp add: digit_char_is_digit)
  qed
qed

lemma isdigit_digits10: "isdigit (digits10 n)"
  using digits10_digits by (simp add: isdigit_def)

lemma not_isdigit_Cons: "\<not> is_digit c \<Longrightarrow> \<not> isdigit (c # r)"
  by (simp add: isdigit_def)

text \<open>What \<^const>\<open>safe_int\<close> returns, by the kind of its argument.\<close>

lemma safe_int_cases:
  "safe_int v dflt =
     (case v of
        JStr s \<Rightarrow> if isdigit s then JNum (int (nat_of_digits s)) else dflt
      | JNum n \<Rightarrow> if 0 < n then JNum n else dflt
      | _ \<Rightarrow> dflt)"
proof (cases v)
  case (JStr s)
  then show ?thesis
    by (auto simp: safe_int_def py_str_def int_of_str_digits isdigit_def)
next
  case (JNum n)
  show ?thesis
  proof (cases "0 < n")
    case True
    then show ?thesis using JNum
      by (simp add: safe_int_def py_str_def str_of_int_def isdigit_digits10)
  next
    case False
    have "\<not> is_digit CHR ''-''" by (simp add: is_digit_def less_eq_char_def)
    then show ?thesis using JNum False
      by (auto simp: safe_int_def py_str_def str_of_int_def not_isdigit_Cons)
  qed
next
  case (JBool b)
  then show ?thesis
    by (simp add: safe_int_def py_str_def isdigit_def is_digit_def less_eq_char_def)
next
  case (JList xs)
  then show ?thesis
    by (simp add: safe_int_def py_str_def isdigit_def is_digit_def less_eq_char_def)
next
  case (JObj kvs)
  then show ?thesis
    by (simp add: safe_int_def py_str_def isdigit_def is_digit_def less_eq_char_def)
qed (simp add: safe_int_def)


lemma convert_card_fields:
  assumes "convert_card card_data set_name = Inr c"
  shows "map_of c ''cost'' = Some (safe_int (dict_get card_data ''cost'' JNull) (JNum 0))"
    and "map_of c ''power''
           = Some (if truthy (dict_get card_data ''power'' JNull)
                   then safe_int (dict_get card_data ''power'' JNull) (JNum 0) else JNull)"
    and "map_of c ''rarity''
           = Some (JStr (upper (py_str (dict_get card_data ''rarity'' (JStr ''C'')))))"
proof -
  obtain el where el: "card_element card_data = Inr el"
    using assms by (cases "card_element card_data") (simp_all add: convert_card_def)
  obtain ty where ty: "type_mapping (dict_get card_data ''type_en'' (JStr '''')) = Inr ty"
    using assms el
    by (cases "type_mapping (dict_get card_data ''type_en'' (JStr ''''))")
      (simp_all add: convert_card_def)
  obtain im where im: "card_image card_data = Inr im"
    using assms el ty by (cases "card_image card_data") (simp_all add: convert_card_def Let_def)
  have c: "c = [(''id'', dict_get card_data ''code'' (JStr ''unknown'')),
         (''name'', dict_get card_data ''name_en'' (JStr '''')),
         (''element'', JStr el),
         (''type'', JStr ty),
         (''cost'', safe_int (dict_get card_data ''cost'' JNull) (JNum 0)),
         (''power'', if truthy (dict_get card_data ''power'' JNull)
                     then safe_int (dict_get card_data ''power'' JNull) (JNum 0) else JNull),
         (''job'', dict_get card_data ''job_en'' (JStr '''')),
         (''category'', dict_get card_data ''category_1'' (JStr '''')),
         (''rarity'', JStr (upper (py_str (dict_get card_data ''rarity'' (JStr ''C''))))),
         (''text'', dict_get card_data ''text_en'' (JStr '''')),
         (''set'', JStr set_name),
         (''cardNumber'', dict_get card_data ''code'' (JStr ''unknown'')),
         (''hasRealImage'', JBool True),
         (''source'', JStr ''square-api'')]
        @ (case im of None \<Rightarrow> [] | Some img \<Rightarrow> [(''image'', img)])"
    using assms unfolding convert_card_def el ty im by (cases im) (simp_all add: Let_def)
  show "map_of c ''cost'' = Some (safe_int (dict_get card_data ''cost'' JNull) (JNum 0))"
    unfolding c by simp
  show "map_of c ''power''
           = Some (if truthy (dict_get card_data ''power'' JNull)
                   then safe_int (dict_get card_data ''power'' JNull) (JNum 0) else JNull)"
    unfolding c by simp
  show "map_of c ''rarity''
           = Some (JStr (upper (py_str (dict_get card_data ''rarity'' (JStr ''C'')))))"
    unfolding c by simp
qed

text \<open>
  Claim C7. In fftcg_database_manager.py (and fetch_missing_sets.py) the power is
  \<^verbatim>\<open>safe_int(...)\<close> with the default 0 whenever the raw power is a true value: a power that
  is a string without digits comes out as the number 0, not as absent. The cost of the same
  record is parsed, as the claim says.
\<close>

theorem convert_card_power_not_absent:
  "convert_card raw_text_power ''Opus I''
     = Inr [(''id'', JStr ''1-003C''), (''name'', JStr ''Goblin''), (''element'', JStr ''unknown''),
            (''type'', JStr ''unknown''), (''cost'', JNum 2), (''power'', JNum 0),
            (''job'', JStr ''''), (''category'', JStr ''''), (''rarity'', JStr ''C''),
            (''text'', JStr ''''), (''set'', JStr ''Opus I''), (''cardNumber'', JStr ''1-003C''),
            (''hasRealImage'', JBool True), (''source'', JStr ''square-api'')]"
  by code_simp

subsection \<open>Rarity\<close>

lemma card_rarity_cases:
  "card_rarity card_data =
     (case map_of card_data ''rarity'' of
        None \<Rightarrow> ''C''
      | Some v \<Rightarrow> if truthy v then upper (py_str v) else ''C'')"
  by (simp add: card_rarity_def rarity_mapping_def dict_get_def split: option.splits)

lemma card_rarity_ffd_cases:
  "card_rarity_ffd card_data =
     (case map_of card_data ''rarity'' of
        None \<Rightarrow> Inr ''''
      | Some v \<Rightarrow> (case v of JStr s \<Rightarrow> Inr (upper s) | _ \<Rightarrow> Inl AttributeError))"
  by (simp add: card_rarity_ffd_def rarity_mapping_ffd_def dict_get_def upper_def
      split: option.splits)

text \<open>
  Claim C8. In fetch_fftcg_data.py the default of the lookup is the empty string, which
  \<^verbatim>\<open>rarity_mapping\<close> passes through: a record without rarity gets the empty rarity, not
  \<^verbatim>\<open>C\<close>. fetch_missing_sets.py gives \<^verbatim>\<open>C\<close> for the same record.
\<close>

theorem fetch_fftcg_data_rarity_default:
  "fetch_set_data_ffd (Cards [raw_no_rarity]) ''Opus I''
     = [[(''id'', JStr ''1-004C''), (''name'', JStr ''Bomb''), (''element'', JStr ''fire''),
         (''type'', JStr ''monster''), (''cost'', JNum 1), (''power'', JNull),
         (''job'', JStr ''''), (''category'', JStr ''''), (''rarity'', JStr ''''),
         (''text'', JStr ''''), (''set'', JStr ''Opus I''), (''cardNumber'', JStr ''1-004C''),
         (''hasRealImage'', JBool True), (''source'', JStr ''square-api'')]]
   \<and> card_rarity raw_no_rarity = ''C''"
  by code_simp

end
